theory Spec2Isabelle
  imports Complex_Main "HOL-Library.Extended_Nat"
begin

section \<open>Arrays\<close>

text \<open>
  The optimizers of \<^verbatim>\<open>pypop7\<close> work on one- and two-dimensional numpy arrays of
  Python floats. A one-dimensional array is a list of reals, a two-dimensional one a
  list of rows. Floats are read as real numbers: rounding, overflow and NaN are outside
  the model. Arithmetic between arrays is elementwise; numpy raises on arrays of
  different shapes, and every array of a run is allocated in \<^verbatim>\<open>initialize\<close> with the
  shape it keeps, so the operations below are only ever applied to matching shapes.
\<close>

type_synonym vec = "real list"
type_synonym mat = "real list list"

definition vadd :: "vec \<Rightarrow> vec \<Rightarrow> vec" where
  "vadd u v = map2 (+) u v"

definition vsub :: "vec \<Rightarrow> vec \<Rightarrow> vec" where
  "vsub u v = map2 (-) u v"

definition vmul :: "vec \<Rightarrow> vec \<Rightarrow> vec" where
  "vmul u v = map2 (*) u v"

definition smul :: "real \<Rightarrow> vec \<Rightarrow> vec" where
  "smul c v = map ((*) c) v"

definition dot :: "vec \<Rightarrow> vec \<Rightarrow> real" where
  "dot u v = sum_list (map2 (*) u v)"

section \<open>The optimizer base: problem, options and run state\<close>

datatype error = AssertionError | TypeError

datatype terminations = MAX_FUNCTION_EVALUATIONS | MAX_RUNTIME | FITNESS_THRESHOLD

text \<open>
  The problem and the common options. \<^verbatim>\<open>max_function_evaluations\<close> is an int with
  default \<^verbatim>\<open>np.Inf\<close>, hence an \<^typ>\<open>enat\<close>; \<^verbatim>\<open>max_runtime\<close> defaults to
  \<^verbatim>\<open>np.Inf\<close> and \<^verbatim>\<open>fitness_threshold\<close> to \<^verbatim>\<open>-np.Inf\<close>, both \<open>None\<close> here.
  What the run reads from outside is part of the record: \<open>clock i\<close> is the elapsed
  wall-clock time at the \<open>i\<close>-th reading, \<open>standard_normal i n\<close> and \<open>uniform i\<close> are
  what the \<open>i\<close>-th draw from \<^verbatim>\<open>rng_optimization\<close> returns, \<open>initial_uniform\<close> is
  the draw from \<^verbatim>\<open>rng_initialization\<close>, and \<open>uninitialized\<close> is what a cell of an
  \<^verbatim>\<open>np.empty\<close> array holds.
\<close>

record problem =
  fitness_function :: "vec \<Rightarrow> real"
  ndim_problem :: nat
  max_function_evaluations :: enat
  max_runtime :: "real option"
  fitness_threshold :: "real option"
  record_fitness :: bool
  clock :: "nat \<Rightarrow> real"
  standard_normal :: "nat \<Rightarrow> nat \<Rightarrow> vec"
  uniform :: "nat \<Rightarrow> real"
  initial_uniform :: vec
  uninitialized :: real

text \<open>
  The mutable attributes of the optimizer object. \<open>best_so_far\<close> is \<open>None\<close> until the
  first evaluation (\<^verbatim>\<open>best_so_far_x = None\<close>, \<^verbatim>\<open>best_so_far_y = np.Inf\<close>);
  \<open>n_clock\<close> and \<open>n_draws\<close> count the readings of the clock and of the generator.
\<close>

record run_state =
  n_function_evaluations :: nat
  best_so_far :: "(vec \<times> real) option"
  runtime :: real
  termination_signal :: "terminations option"
  n_generations :: nat
  sigma :: real
  n_clock :: nat
  n_draws :: nat

definition start_state :: "real \<Rightarrow> run_state" where
  "start_state sigma0 =
     \<lparr>n_function_evaluations = 0, best_so_far = None, runtime = 0,
      termination_signal = None, n_generations = 0, sigma = sigma0,
      n_clock = 0, n_draws = 0\<rparr>"

text \<open>
  Modelled from the spec: \<^verbatim>\<open>Optimizer._evaluate_fitness\<close> is not among the sources.
  The run state is updated once per evaluation: the evaluation counter goes up
  by one and the best-so-far point and fitness are replaced when the new fitness is
  strictly smaller (a copy of the point is stored).
\<close>

definition evaluate_fitness :: "problem \<Rightarrow> run_state \<Rightarrow> vec \<Rightarrow> real \<times> run_state" where
  "evaluate_fitness p st x =
     (let y = fitness_function p x;
          st1 = st\<lparr>n_function_evaluations := n_function_evaluations st + 1\<rparr>
      in (y, case best_so_far st of
               None \<Rightarrow> st1\<lparr>best_so_far := Some (x, y)\<rparr>
             | Some (bx, by) \<Rightarrow> if y < by then st1\<lparr>best_so_far := Some (x, y)\<rparr> else st1))"

text \<open>
  Modelled from the spec: \<^verbatim>\<open>Optimizer._check_terminations\<close> is not among the sources.
  It reads the clock and stops when, in this order, the evaluations have reached
  \<^verbatim>\<open>max_function_evaluations\<close>, the runtime has reached \<^verbatim>\<open>max_runtime\<close>, or the
  best-so-far fitness has reached \<^verbatim>\<open>fitness_threshold\<close>; the reason is recorded.
\<close>

definition termination_reason :: "problem \<Rightarrow> run_state \<Rightarrow> real \<Rightarrow> terminations option" where
  "termination_reason p st t =
     (if max_function_evaluations p \<le> enat (n_function_evaluations st)
      then Some MAX_FUNCTION_EVALUATIONS
      else if (case max_runtime p of None \<Rightarrow> False | Some m \<Rightarrow> m \<le> t)
      then Some MAX_RUNTIME
      else if (case (best_so_far st, fitness_threshold p) of
                 (Some (bx, by), Some thr) \<Rightarrow> by \<le> thr
               | _ \<Rightarrow> False)
      then Some FITNESS_THRESHOLD
      else None)"

definition check_terminations :: "problem \<Rightarrow> run_state \<Rightarrow> bool \<times> run_state" where
  "check_terminations p st =
     (let t = clock p (n_clock st);
          signal = termination_reason p st t
      in (signal \<noteq> None,
          st\<lparr>runtime := t, termination_signal := signal, n_clock := n_clock st + 1\<rparr>))"

text \<open>
  Modelled from the spec: \<^verbatim>\<open>Optimizer._collect_results\<close> is not among the sources.
  The result is a snapshot of the run state with the recorded fitness values.
\<close>

record results =
  res_n_function_evaluations :: nat
  res_best_so_far :: "(vec \<times> real) option"
  res_runtime :: real
  res_termination_signal :: "terminations option"
  res_n_generations :: nat
  res_fitness :: "real list"

definition collect_results :: "run_state \<Rightarrow> real list \<Rightarrow> results" where
  "collect_results st fitness =
     \<lparr>res_n_function_evaluations = n_function_evaluations st,
      res_best_so_far = best_so_far st,
      res_runtime = runtime st,
      res_termination_signal = termination_signal st,
      res_n_generations = n_generations st,
      res_fitness = fitness\<rparr>"

section \<open>SRS: simple random search\<close>

text \<open>
  The options of \<^verbatim>\<open>SRS\<close>: \<^verbatim>\<open>x\<close> and the four optional settings are read with
  \<^verbatim>\<open>options.get\<close>, \<^verbatim>\<open>sigma\<close> is set by the base class from the options.
\<close>

record srs_options =
  opt_x :: "vec option"
  opt_sigma :: real
  opt_alpha :: "real option"
  opt_beta :: "real option"
  opt_gamma :: "real option"
  opt_min_sigma :: "real option"

record srs =
  alpha :: real
  beta :: real
  gamma :: real
  min_sigma :: real

definition get_default :: "'a option \<Rightarrow> 'a \<Rightarrow> 'a" where
  "get_default v d = (case v of None \<Rightarrow> d | Some a \<Rightarrow> a)"

definition srs_init :: "srs_options \<Rightarrow> error + srs" where
  "srs_init opts =
     (let a = get_default (opt_alpha opts) 0.3 in
      if \<not> a > 0 then Inl AssertionError else
      let b = get_default (opt_beta opts) 0.0 in
      if \<not> (0 \<le> b \<and> b \<le> 1) then Inl AssertionError else
      let g = get_default (opt_gamma opts) 0.99 in
      if \<not> (0 \<le> g \<and> g \<le> 1) then Inl AssertionError else
      let m = get_default (opt_min_sigma opts) 0.01 in
      if \<not> m > 0 then Inl AssertionError else
      Inr \<lparr>alpha = a, beta = b, gamma = g, min_sigma = m\<rparr>)"

definition srs_initialize :: "problem \<Rightarrow> srs_options \<Rightarrow> run_state \<Rightarrow> vec \<times> real \<times> run_state" where
  "srs_initialize p opts st =
     (let x = (case opt_x opts of None \<Rightarrow> initial_uniform p | Some x0 \<Rightarrow> x0);
          (y, st1) = evaluate_fitness p st x
      in (x, y, st1))"

text \<open>
  \<^verbatim>\<open>SRS.iterate\<close>. The subtraction \<^verbatim>\<open>self.best_so_far_x - x\<close> raises a TypeError
  when no point has been recorded yet.
\<close>

definition srs_iterate :: "problem \<Rightarrow> srs \<Rightarrow> run_state \<Rightarrow> vec \<Rightarrow> error + (vec \<times> real \<times> run_state)" where
  "srs_iterate p h st x =
     (let delta_x = smul (sigma st) (standard_normal p (n_draws st) (ndim_problem p));
          st1 = st\<lparr>n_draws := n_draws st + 1\<rparr>;
          (y, st2) = evaluate_fitness p st1 (vadd x delta_x);
          probability = uniform p (n_draws st2);
          st3 = st2\<lparr>n_draws := n_draws st2 + 1\<rparr>
      in if probability < beta h
         then Inr (vadd x (smul (alpha h) delta_x), y, st3)
         else (case best_so_far st3 of
                 None \<Rightarrow> Inl TypeError
               | Some (bx, by) \<Rightarrow> Inr (vadd x (smul (alpha h) (vsub bx x)), y, st3)))"

text \<open>
  One pass through the body of the \<^verbatim>\<open>while True\<close> loop of \<^verbatim>\<open>SRS.optimize\<close>, up to
  and including the termination check; the flag says whether the loop breaks.
\<close>

definition srs_generation ::
  "problem \<Rightarrow> srs \<Rightarrow> vec \<times> real list \<times> run_state \<Rightarrow>
   error + (bool \<times> vec \<times> real \<times> real list \<times> run_state)" where
  "srs_generation p h = (\<lambda>(x, fitness, st).
     case srs_iterate p h st x of
       Inl e \<Rightarrow> Inl e
     | Inr (x1, y, st1) \<Rightarrow>
         (let st2 = st1\<lparr>sigma := max (gamma h * sigma st1) (min_sigma h)\<rparr>;
              fitness1 = (if record_fitness p then fitness @ [y] else fitness);
              (stop, st3) = check_terminations p st2
          in Inr (stop, x1, y, fitness1, st3)))"

text \<open>
  The loop, with fuel: \<open>None\<close> is a run that has not stopped after \<open>fuel\<close> generations.
\<close>

fun srs_loop ::
  "nat \<Rightarrow> problem \<Rightarrow> srs \<Rightarrow> vec \<times> real list \<times> run_state \<Rightarrow>
   (error + (real list \<times> run_state)) option" where
  "srs_loop 0 p h c = None"
| "srs_loop (Suc fuel) p h c =
     (case srs_generation p h c of
        Inl e \<Rightarrow> Some (Inl e)
      | Inr (stop, x1, y, fitness1, st3) \<Rightarrow>
          if stop then Some (Inr (fitness1, st3))
          else srs_loop fuel p h (x1, fitness1, st3\<lparr>n_generations := n_generations st3 + 1\<rparr>))"

definition srs_optimize :: "nat \<Rightarrow> problem \<Rightarrow> srs_options \<Rightarrow> (error + results) option" where
  "srs_optimize fuel p opts =
     (case srs_init opts of
        Inl e \<Rightarrow> Some (Inl e)
      | Inr h \<Rightarrow>
          (let (x, y, st) = srs_initialize p opts (start_state (opt_sigma opts))
           in case srs_loop fuel p h (x, [y], st) of
                None \<Rightarrow> None
              | Some (Inl e) \<Rightarrow> Some (Inl e)
              | Some (Inr (fitness, st1)) \<Rightarrow> Some (Inr (collect_results st1 fitness))))"

section \<open>The strategy base of LMMAES and XNES\<close>

text \<open>
  The attributes that the base classes \<^verbatim>\<open>ES\<close> and \<^verbatim>\<open>NES\<close> set up, neither of
  which is among the sources: the population size, the number of parents, the
  recombination weights \<^verbatim>\<open>_w\<close> with their \<^verbatim>\<open>_mu_eff\<close>, the restart flag, the
  initial step-size, the initial mean (\<^verbatim>\<open>_initialize_mean\<close>, which draws from
  \<^verbatim>\<open>rng_initialization\<close> on a restart) and the restart criteria.
\<close>

record strategy =
  n_individuals :: nat
  n_parents :: nat
  w :: vec
  mu_eff :: real
  is_restart :: bool
  initial_sigma :: real
  initialize_mean :: "bool \<Rightarrow> run_state \<Rightarrow> vec"
  es_should_restart :: "run_state \<Rightarrow> bool"
  nes_should_restart :: "run_state \<Rightarrow> vec \<Rightarrow> bool"

text \<open>
  Modelled from the spec: \<^verbatim>\<open>ES.restart_initialize\<close> is not among the sources.
  The restart policy is consulted only when restarts are enabled; on a restart the
  step-size is reset to its initial value, and the evaluation and generation counters
  are kept.
\<close>

definition es_restart_initialize :: "strategy \<Rightarrow> run_state \<Rightarrow> bool \<times> run_state" where
  "es_restart_initialize e st =
     (if is_restart e \<and> es_should_restart e st
      then (True, st\<lparr>sigma := initial_sigma e\<rparr>)
      else (False, st))"

text \<open>
  Modelled from the spec: \<^verbatim>\<open>NES.restart_reinitialize\<close> is not among the sources.
  It is the same policy, told the fitness values of the generation; the test of the
  restart flag is in \<^verbatim>\<open>XNES.restart_reinitialize\<close> itself.
\<close>

definition nes_restart_reinitialize :: "strategy \<Rightarrow> run_state \<Rightarrow> vec \<Rightarrow> bool \<times> run_state" where
  "nes_restart_reinitialize e st y =
     (if nes_should_restart e st y
      then (True, st\<lparr>sigma := initial_sigma e\<rparr>)
      else (False, st))"

text \<open>
  \<^verbatim>\<open>np.argsort\<close>: the indices in ascending order of their values. numpy's default
  sort does not promise an order among equal values; the model keeps them in index
  order.
\<close>

definition argsort :: "vec \<Rightarrow> nat list" where
  "argsort ys = sort_key (\<lambda>i. ys ! i) [0..<length ys]"

definition np_empty :: "problem \<Rightarrow> nat \<Rightarrow> real list" where
  "np_empty p n = replicate n (uninitialized p)"

definition np_empty2 :: "problem \<Rightarrow> nat \<Rightarrow> nat \<Rightarrow> mat" where
  "np_empty2 p m n = replicate m (replicate n (uninitialized p))"

definition np_zeros :: "nat \<Rightarrow> vec" where
  "np_zeros n = replicate n 0"

definition np_zeros2 :: "nat \<Rightarrow> nat \<Rightarrow> mat" where
  "np_zeros2 m n = replicate m (replicate n 0)"

section \<open>LMMAES: limited-memory matrix adaptation\<close>

record lmmaes_options =
  opt_n_evolution_paths :: "nat option"
  opt_c_s :: "real option"

text \<open>What \<^verbatim>\<open>LMMAES.__init__\<close> computes: the number of evolution paths and \<^verbatim>\<open>_c_d\<close>.\<close>

record lmmaes_static =
  n_evolution_paths :: nat
  c_d :: vec

text \<open>What \<^verbatim>\<open>LMMAES.initialize\<close> stores on the object.\<close>

record lmmaes_coeffs =
  c_s :: real
  s_1 :: real
  s_2 :: real
  c_c :: vec

definition lmmaes_init :: "problem \<Rightarrow> lmmaes_options \<Rightarrow> lmmaes_static" where
  "lmmaes_init p opts =
     (let m = get_default (opt_n_evolution_paths opts)
                (4 + nat \<lfloor>3 * ln (real (ndim_problem p))\<rfloor>)
      in \<lparr>n_evolution_paths = m,
          c_d = map (\<lambda>k. 1 / (real (ndim_problem p) * (3 / 2) ^ k)) [0..<m]\<rparr>)"

type_synonym lmmaes_arrays = "mat \<times> mat \<times> vec \<times> vec \<times> mat \<times> vec"

definition lmmaes_initialize ::
  "problem \<Rightarrow> strategy \<Rightarrow> lmmaes_options \<Rightarrow> lmmaes_static \<Rightarrow> bool \<Rightarrow> run_state \<Rightarrow>
   lmmaes_coeffs \<times> lmmaes_arrays" where
  "lmmaes_initialize p e opts h restarting st =
     (let cs = get_default (opt_c_s opts)
                 (2 * real (n_individuals e) / real (ndim_problem p));
          s1 = 1 - cs;
          s1 = (if s1 < 0 then 0.5 else s1);
          s2 = mu_eff e * cs * (2 - cs);
          s2 = (if s2 < 0 then (0.5 :: real) ^ 2 else s2);
          cc = map (\<lambda>k. real (n_individuals e) / (real (ndim_problem p) * 4 ^ k))
                 [0..<n_evolution_paths h];
          z = np_empty2 p (n_individuals e) (ndim_problem p);
          d = np_empty2 p (n_individuals e) (ndim_problem p);
          mean = initialize_mean e restarting st;
          s = np_zeros (ndim_problem p);
          tm = np_zeros2 (n_evolution_paths h) (ndim_problem p);
          y = np_empty p (n_individuals e)
      in (\<lparr>c_s = cs, s_1 = s1, s_2 = sqrt s2, c_c = cc\<rparr>, (z, d, mean, s, tm, y)))"

text \<open>
  The inner loop of \<^verbatim>\<open>LMMAES.iterate\<close>: the noise vector is blended with the first
  \<open>min n_generations n_evolution_paths\<close> rows of \<open>tm\<close>.
\<close>

definition lmmaes_direction :: "lmmaes_static \<Rightarrow> mat \<Rightarrow> nat \<Rightarrow> vec \<Rightarrow> vec" where
  "lmmaes_direction h tm g zk =
     foldl (\<lambda>dk j. vadd (smul (1 - c_d h ! j) dk)
                       (smul (dot (tm ! j) dk) (smul (c_d h ! j) (tm ! j))))
       zk [0..<min g (n_evolution_paths h)]"

text \<open>
  The sampling loop of \<^verbatim>\<open>LMMAES.iterate\<close> over the candidate indices still to do.
  The last component is not in the source: it is \<open>Some k\<close> when the termination check
  fired before candidate \<open>k\<close> and the loop returned there, and \<open>None\<close> when the loop
  ran to its end. \<open>lmmaes_iterate\<close> drops it.
\<close>

fun lmmaes_sampling ::
  "problem \<Rightarrow> strategy \<Rightarrow> lmmaes_static \<Rightarrow> vec \<Rightarrow> mat \<Rightarrow> nat list \<Rightarrow>
   mat \<times> mat \<times> vec \<times> run_state \<Rightarrow> (mat \<times> mat \<times> vec \<times> run_state) \<times> nat option" where
  "lmmaes_sampling p e h mean tm [] c = (c, None)"
| "lmmaes_sampling p e h mean tm (k # ks) (z, d, y, st) =
     (let (stop, st1) = check_terminations p st in
      if stop then ((z, d, y, st1), Some k)
      else
        (let zk = standard_normal p (n_draws st1) (ndim_problem p);
             st2 = st1\<lparr>n_draws := n_draws st1 + 1\<rparr>;
             dk = lmmaes_direction h tm (n_generations st2) zk;
             (yk, st3) = evaluate_fitness p st2 (vadd mean (smul (sigma st2) dk))
         in lmmaes_sampling p e h mean tm ks (z[k := zk], d[k := dk], y[k := yk], st3)))"

definition lmmaes_iterate ::
  "problem \<Rightarrow> strategy \<Rightarrow> lmmaes_static \<Rightarrow> mat \<Rightarrow> mat \<Rightarrow> vec \<Rightarrow> mat \<Rightarrow> vec \<Rightarrow> run_state \<Rightarrow>
   mat \<times> mat \<times> vec \<times> run_state" where
  "lmmaes_iterate p e h z d mean tm y st =
     fst (lmmaes_sampling p e h mean tm [0..<n_individuals e] (z, d, y, st))"

text \<open>The rank-\<open>m\<close> loop of \<^verbatim>\<open>LMMAES._update_distribution\<close>: one row of \<open>tm\<close>.\<close>

definition lmmaes_tm_row :: "strategy \<Rightarrow> lmmaes_coeffs \<Rightarrow> vec \<Rightarrow> mat \<Rightarrow> nat \<Rightarrow> mat" where
  "lmmaes_tm_row e c z_w tm k =
     (let tm_1 = 1 - c_c c ! k;
          tm_1 = (if tm_1 < 0 then 0.5 else tm_1);
          tm_2 = mu_eff e * (c_c c ! k) * (2 - c_c c ! k);
          tm_2 = (if tm_2 < 0 then (0.5 :: real) ^ 2 else tm_2)
      in tm[k := vadd (smul tm_1 (tm ! k)) (smul (sqrt tm_2) z_w)])"

definition lmmaes_update_distribution ::
  "problem \<Rightarrow> strategy \<Rightarrow> lmmaes_static \<Rightarrow> lmmaes_coeffs \<Rightarrow> lmmaes_arrays \<Rightarrow> run_state \<Rightarrow>
   (vec \<times> vec \<times> mat) \<times> run_state" where
  "lmmaes_update_distribution p e h c = (\<lambda>(z, d, mean, s, tm, y) st.
     (let order = argsort y;
          (d_w, z_w) =
            foldl (\<lambda>(d_w, z_w) k.
                     (vadd d_w (smul (w e ! k) (d ! (order ! k))),
                      vadd z_w (smul (w e ! k) (z ! (order ! k)))))
              (np_zeros (ndim_problem p), np_zeros (ndim_problem p)) [0..<n_parents e];
          mean1 = vadd mean (smul (sigma st) d_w);
          s1 = vadd (smul (s_1 c) s) (smul (s_2 c) z_w);
          tm1 = foldl (lmmaes_tm_row e c z_w) tm [0..<n_evolution_paths h];
          st1 = st\<lparr>sigma := sigma st *
                   exp (c_s c / 2 *
                        (sum_list (map (\<lambda>v. v ^ 2) s1) / real (ndim_problem p) - 1))\<rparr>
      in ((mean1, s1, tm1), st1)))"

definition lmmaes_restart_initialize ::
  "problem \<Rightarrow> strategy \<Rightarrow> lmmaes_options \<Rightarrow> lmmaes_static \<Rightarrow> lmmaes_coeffs \<Rightarrow>
   lmmaes_arrays \<Rightarrow> run_state \<Rightarrow> (lmmaes_coeffs \<times> lmmaes_arrays) \<times> run_state" where
  "lmmaes_restart_initialize p e opts h c arrays st =
     (let (restart, st1) = es_restart_initialize e st in
      if restart then (lmmaes_initialize p e opts h True st1, st1)
      else ((c, arrays), st1))"

text \<open>
  One pass through the body of the loop of \<^verbatim>\<open>LMMAES.optimize\<close>: \<open>Inl\<close> when the
  termination check breaks out of the loop, with the state the results are collected
  from, and \<open>Inr\<close> with the state of the next pass otherwise. Printing has no effect
  on the state.
\<close>

type_synonym lmmaes_loop_state = "lmmaes_coeffs \<times> lmmaes_arrays \<times> real list \<times> run_state"

definition lmmaes_generation ::
  "problem \<Rightarrow> strategy \<Rightarrow> lmmaes_options \<Rightarrow> lmmaes_static \<Rightarrow> lmmaes_loop_state \<Rightarrow>
   lmmaes_loop_state + lmmaes_loop_state" where
  "lmmaes_generation p e opts h = (\<lambda>(c, (z, d, mean, s, tm, y), fitness, st).
     (let (z1, d1, y1, st1) = lmmaes_iterate p e h z d mean tm y st;
          fitness1 = (if record_fitness p then fitness @ y1 else fitness);
          (stop, st2) = check_terminations p st1
      in if stop then Inl (c, (z1, d1, mean, s, tm, y1), fitness1, st2)
         else
           (let ((mean1, s1, tm1), st3) =
                  lmmaes_update_distribution p e h c (z1, d1, mean, s, tm, y1) st2;
                st4 = st3\<lparr>n_generations := n_generations st3 + 1\<rparr>;
                ((c1, arrays1), st5) =
                  lmmaes_restart_initialize p e opts h c (z1, d1, mean1, s1, tm1, y1) st4
            in Inr (c1, arrays1, fitness1, st5))))"

fun lmmaes_loop ::
  "nat \<Rightarrow> problem \<Rightarrow> strategy \<Rightarrow> lmmaes_options \<Rightarrow> lmmaes_static \<Rightarrow> lmmaes_loop_state \<Rightarrow>
   lmmaes_loop_state option" where
  "lmmaes_loop 0 p e opts h ls = None"
| "lmmaes_loop (Suc fuel) p e opts h ls =
     (case lmmaes_generation p e opts h ls of
        Inl final \<Rightarrow> Some final
      | Inr next \<Rightarrow> lmmaes_loop fuel p e opts h next)"

text \<open>
  \<^verbatim>\<open>LMMAES.optimize\<close>: the results with the mean, and the entries \<^verbatim>\<open>s\<close> and
  \<^verbatim>\<open>tm\<close> added to them.
\<close>

definition lmmaes_optimize ::
  "nat \<Rightarrow> problem \<Rightarrow> strategy \<Rightarrow> lmmaes_options \<Rightarrow> (results \<times> vec \<times> vec \<times> mat) option" where
  "lmmaes_optimize fuel p e opts =
     (let h = lmmaes_init p opts;
          st = start_state (initial_sigma e);
          (c, arrays) = lmmaes_initialize p e opts h False st
      in case lmmaes_loop fuel p e opts h (c, arrays, [], st) of
           None \<Rightarrow> None
         | Some (c1, (z, d, mean, s, tm, y), fitness, st1) \<Rightarrow>
             Some (collect_results st1 fitness, mean, s, tm))"

section \<open>XNES: exponential natural evolution strategy\<close>

subsection \<open>Two-dimensional arrays\<close>

definition np_eye :: "nat \<Rightarrow> mat" where
  "np_eye n = map (\<lambda>i. map (\<lambda>j. if i = j then 1 else 0) [0..<n]) [0..<n]"

definition ncols :: "mat \<Rightarrow> nat" where
  "ncols A = (case A of [] \<Rightarrow> 0 | r # rs \<Rightarrow> length r)"

definition col :: "mat \<Rightarrow> nat \<Rightarrow> vec" where
  "col A j = map (\<lambda>r. r ! j) A"

definition np_transpose :: "mat \<Rightarrow> mat" where
  "np_transpose A = map (col A) [0..<ncols A]"

definition mat_vec :: "mat \<Rightarrow> vec \<Rightarrow> vec" where
  "mat_vec A v = map (\<lambda>r. dot r v) A"

definition mat_mul :: "mat \<Rightarrow> mat \<Rightarrow> mat" where
  "mat_mul A B = map (\<lambda>r. map (\<lambda>j. dot r (col B j)) [0..<ncols B]) A"

definition madd :: "mat \<Rightarrow> mat \<Rightarrow> mat" where
  "madd A B = map2 vadd A B"

definition msub :: "mat \<Rightarrow> mat \<Rightarrow> mat" where
  "msub A B = map2 vsub A B"

definition msmul :: "real \<Rightarrow> mat \<Rightarrow> mat" where
  "msmul c A = map (smul c) A"

definition mneg :: "mat \<Rightarrow> mat" where
  "mneg A = map (map uminus) A"

definition np_outer :: "vec \<Rightarrow> vec \<Rightarrow> mat" where
  "np_outer u v = map (\<lambda>a. map (\<lambda>b. a * b) v) u"

definition np_trace :: "mat \<Rightarrow> real" where
  "np_trace A = sum_list (map (\<lambda>i. A ! i ! i) [0..<min (length A) (ncols A)])"

subsection \<open>The optimizer\<close>

record xnes =
  lr_cv :: real
  lr_sigma :: real
  eye :: mat

definition xnes_init :: "problem \<Rightarrow> xnes" where
  "xnes_init p =
     (let n = real (ndim_problem p) in
      \<lparr>lr_cv = 0.6 * (3.0 + ln n) / n / sqrt n,
       lr_sigma = 0.6 * (3.0 + ln n) / n / sqrt n,
       eye = np_eye (ndim_problem p)\<rparr>)"

type_synonym xnes_arrays = "mat \<times> vec \<times> vec \<times> mat \<times> mat \<times> real"

text \<open>
  \<^verbatim>\<open>XNES.initialize\<close> stores the rank weights \<^verbatim>\<open>_w\<close> on the object and returns the
  arrays; the transform and its inverse start as the identity, the log-determinant
  as zero.
\<close>

definition xnes_initialize ::
  "problem \<Rightarrow> strategy \<Rightarrow> bool \<Rightarrow> run_state \<Rightarrow> strategy \<times> xnes_arrays" where
  "xnes_initialize p e restarting st =
     (let x = np_empty2 p (n_individuals e) (ndim_problem p);
          y = np_empty p (n_individuals e);
          mean = initialize_mean e restarting st;
          a = np_eye (ndim_problem p);
          inv_a = np_eye (ndim_problem p);
          log_det = 0.0;
          w1 = map (\<lambda>i. max 0.0 (ln (real (n_individuals e) / 2.0 + 1.0)
                                 - ln (real (n_individuals e - i))))
                 [0..<n_individuals e]
      in (e\<lparr>w := w1\<rparr>, (x, y, mean, a, inv_a, log_det)))"

text \<open>
  The sampling loop of \<^verbatim>\<open>XNES.iterate\<close>, with the same added last component as
  \<open>lmmaes_sampling\<close>; \<open>xnes_iterate\<close> drops it.
\<close>

fun xnes_sampling ::
  "problem \<Rightarrow> vec \<Rightarrow> mat \<Rightarrow> nat list \<Rightarrow> mat \<times> vec \<times> run_state \<Rightarrow>
   (mat \<times> vec \<times> run_state) \<times> nat option" where
  "xnes_sampling p mean a [] c = (c, None)"
| "xnes_sampling p mean a (k # ks) (x, y, st) =
     (let (stop, st1) = check_terminations p st in
      if stop then ((x, y, st1), Some k)
      else
        (let xk = vadd mean (mat_vec a (standard_normal p (n_draws st1) (ndim_problem p)));
             st2 = st1\<lparr>n_draws := n_draws st1 + 1\<rparr>;
             (yk, st3) = evaluate_fitness p st2 xk
         in xnes_sampling p mean a ks (x[k := xk], y[k := yk], st3)))"

definition xnes_iterate ::
  "problem \<Rightarrow> strategy \<Rightarrow> mat \<Rightarrow> vec \<Rightarrow> vec \<Rightarrow> mat \<Rightarrow> run_state \<Rightarrow> mat \<times> vec \<times> run_state" where
  "xnes_iterate p e x y mean a st =
     fst (xnes_sampling p mean a [0..<n_individuals e] (x, y, st))"

text \<open>
  The utility weights of \<^verbatim>\<open>XNES._update_distribution\<close>: the candidate of rank \<open>i\<close>
  in descending fitness receives \<open>w ! i\<close>; the weights are then divided by their sum
  and shifted by \<open>1 / n_individuals\<close>.
\<close>

definition xnes_utilities :: "problem \<Rightarrow> strategy \<Rightarrow> vec \<Rightarrow> vec" where
  "xnes_utilities p e y =
     (let order = argsort (map uminus y);
          u = foldl (\<lambda>u (i, ord). u[ord := w e ! i])
                (np_empty p (n_individuals e)) (List.enumerate 0 order)
      in map (\<lambda>v. v / sum_list u - 1.0 / real (n_individuals e)) u)"

text \<open>
  \<^verbatim>\<open>XNES._update_distribution\<close>. The matrix exponential \<^verbatim>\<open>scipy.linalg.expm\<close> is
  not part of the repository; it is the parameter \<open>expm\<close>. The covariance gradient
  is the product of the transposed three-dimensional array of the matrices
  \<open>outer s\<^sub>k s\<^sub>k - eye\<close> with \<open>u\<close>: its entry \<open>(i, j)\<close> sums the entries \<open>(j, i)\<close> of
  the matrices, weighted by \<open>u\<close>.
\<close>

definition xnes_update_distribution ::
  "(mat \<Rightarrow> mat) \<Rightarrow> problem \<Rightarrow> strategy \<Rightarrow> xnes \<Rightarrow> xnes_arrays \<Rightarrow> vec \<times> mat \<times> mat \<times> real" where
  "xnes_update_distribution expm p e h = (\<lambda>(x, y, mean, a, inv_a, log_det).
     (let u = xnes_utilities p e y;
          s = foldl (\<lambda>s k. s[k := mat_vec inv_a (vsub (x ! k) mean)])
                (np_empty2 p (n_individuals e) (ndim_problem p)) [0..<n_individuals e];
          d_c = mat_vec (np_transpose s) u;
          arr = map (\<lambda>k. msub (np_outer k k) (eye h)) s;
          g_cv = map (\<lambda>i. map (\<lambda>j. dot (map (\<lambda>m. m ! j ! i) arr) u) [0..<ndim_problem p])
                   [0..<ndim_problem p];
          trace = np_trace g_cv;
          g_cv = msub g_cv (msmul (trace / real (ndim_problem p)) (eye h));
          d_a = msmul 0.5 (madd (msmul (lr_sigma h * trace / real (ndim_problem p)) (eye h))
                                (msmul (lr_cv h) g_cv));
          mean1 = vadd mean (mat_vec a d_c);
          a1 = mat_mul a (expm d_a);
          inv_a1 = mat_mul (expm (mneg d_a)) inv_a;
          log_det1 = log_det + 0.5 * lr_sigma h * trace
      in (mean1, a1, inv_a1, log_det1)))"

definition xnes_restart_reinitialize ::
  "problem \<Rightarrow> strategy \<Rightarrow> xnes_arrays \<Rightarrow> run_state \<Rightarrow> (strategy \<times> xnes_arrays) \<times> run_state" where
  "xnes_restart_reinitialize p e = (\<lambda>(x, y, mean, a, inv_a, log_det) st.
     if is_restart e
     then (let (restart, st1) = nes_restart_reinitialize e st y in
           if restart then (xnes_initialize p e True st1, st1)
           else ((e, (x, y, mean, a, inv_a, log_det)), st1))
     else ((e, (x, y, mean, a, inv_a, log_det)), st))"

text \<open>
  One pass through the body of the loop of \<^verbatim>\<open>XNES.optimize\<close>, \<open>Inl\<close> on the break.
\<close>

type_synonym xnes_loop_state = "strategy \<times> xnes_arrays \<times> run_state"

definition xnes_generation ::
  "(mat \<Rightarrow> mat) \<Rightarrow> problem \<Rightarrow> xnes \<Rightarrow> xnes_loop_state \<Rightarrow> xnes_loop_state + xnes_loop_state" where
  "xnes_generation expm p h = (\<lambda>(e, (x, y, mean, a, inv_a, log_det), st).
     (let (x1, y1, st1) = xnes_iterate p e x y mean a st;
          (stop, st2) = check_terminations p st1
      in if stop then Inl (e, (x1, y1, mean, a, inv_a, log_det), st2)
         else
           (let (mean1, a1, inv_a1, log_det1) =
                  xnes_update_distribution expm p e h (x1, y1, mean, a, inv_a, log_det);
                st3 = st2\<lparr>n_generations := n_generations st2 + 1\<rparr>;
                ((e1, arrays1), st4) =
                  xnes_restart_reinitialize p e (x1, y1, mean1, a1, inv_a1, log_det1) st3
            in Inr (e1, arrays1, st4))))"

fun xnes_loop ::
  "nat \<Rightarrow> (mat \<Rightarrow> mat) \<Rightarrow> problem \<Rightarrow> xnes \<Rightarrow> xnes_loop_state \<Rightarrow> xnes_loop_state option" where
  "xnes_loop 0 expm p h ls = None"
| "xnes_loop (Suc fuel) expm p h ls =
     (case xnes_generation expm p h ls of
        Inl final \<Rightarrow> Some final
      | Inr next \<Rightarrow> xnes_loop fuel expm p h next)"

text \<open>
  \<^verbatim>\<open>XNES.optimize\<close>: the results with the mean; the base class \<^verbatim>\<open>NES\<close> records the
  fitness values, here the empty list.
\<close>

definition xnes_optimize ::
  "nat \<Rightarrow> (mat \<Rightarrow> mat) \<Rightarrow> problem \<Rightarrow> strategy \<Rightarrow> (results \<times> vec) option" where
  "xnes_optimize fuel expm p e =
     (let h = xnes_init p;
          st = start_state (initial_sigma e);
          (e1, arrays) = xnes_initialize p e False st
      in case xnes_loop fuel expm p h (e1, arrays, st) of
           None \<Rightarrow> None
         | Some (e2, (x, y, mean, a, inv_a, log_det), st1) \<Rightarrow>
             Some (collect_results st1 [], mean))"

section \<open>Notions used in the properties\<close>

subsection \<open>Reachable states of an XNES run\<close>

text \<open>
  The states of the loop of \<^verbatim>\<open>XNES.optimize\<close>: the one \<^verbatim>\<open>initialize\<close> returns, and
  the one after each pass through the loop body, whether the loop goes on or breaks.
\<close>

inductive xnes_reachable ::
  "(mat \<Rightarrow> mat) \<Rightarrow> problem \<Rightarrow> strategy \<Rightarrow> xnes_loop_state \<Rightarrow> bool"
  for expm :: "mat \<Rightarrow> mat" and p :: problem and e0 :: strategy where
  start:
    "xnes_initialize p e0 False (start_state (initial_sigma e0)) = (e1, arrays) \<Longrightarrow>
     xnes_reachable expm p e0 (e1, arrays, start_state (initial_sigma e0))"
| continue:
    "xnes_reachable expm p e0 ls \<Longrightarrow> xnes_generation expm p (xnes_init p) ls = Inr ls' \<Longrightarrow>
     xnes_reachable expm p e0 ls'"
| break:
    "xnes_reachable expm p e0 ls \<Longrightarrow> xnes_generation expm p (xnes_init p) ls = Inl ls' \<Longrightarrow>
     xnes_reachable expm p e0 ls'"

subsection \<open>Square matrices and the determinant\<close>

definition square :: "nat \<Rightarrow> mat \<Rightarrow> bool" where
  "square n A = (length A = n \<and> list_all (\<lambda>r. length r = n) A)"



subsection \<open>The overshoot bound of the evaluation count\<close>

text \<open>
  The evaluation count of a result exceeds \<^verbatim>\<open>max_function_evaluations\<close> by at most
  \<open>n - 1\<close>, for a population of \<open>n\<close> candidates.
\<close>

definition overshoot_bound :: "problem \<Rightarrow> nat \<Rightarrow> results \<Rightarrow> bool" where
  "overshoot_bound p n r =
     (enat (res_n_function_evaluations r) \<le> max_function_evaluations p + enat (n - 1))"

text \<open>
  Modelled from the spec: the sources set no population size for SRS. It is a
  single-point search, with one candidate point per generation.
\<close>

definition srs_n_individuals :: nat where
  "srs_n_individuals = 1"

subsection \<open>A small problem to run the optimizers on\<close>

definition sphere :: "vec \<Rightarrow> real" where
  "sphere x = sum_list (map (\<lambda>v. v * v) x)"

definition ex_problem :: problem where
  "ex_problem =
     \<lparr>fitness_function = sphere, ndim_problem = 2, max_function_evaluations = 3,
      max_runtime = None, fitness_threshold = None, record_fitness = True,
      clock = real, standard_normal = (\<lambda>i n. replicate n 1), uniform = (\<lambda>i. 1 / 2),
      initial_uniform = [0, 0], uninitialized = 0\<rparr>"

definition ex_srs_options :: srs_options where
  "ex_srs_options =
     \<lparr>opt_x = Some [3, 3], opt_sigma = 1 / 10, opt_alpha = None, opt_beta = None,
      opt_gamma = None, opt_min_sigma = None\<rparr>"

definition ex_srs :: srs where
  "ex_srs = \<lparr>alpha = 3 / 10, beta = 0, gamma = 99 / 100, min_sigma = 1 / 100\<rparr>"

definition ex_strategy :: strategy where
  "ex_strategy =
     \<lparr>n_individuals = 2, n_parents = 1, w = [1], mu_eff = 1, is_restart = False,
      initial_sigma = 1, initialize_mean = (\<lambda>r st. [1, 1]),
      es_should_restart = (\<lambda>st. False), nes_should_restart = (\<lambda>st y. False)\<rparr>"

definition ex_lmmaes_options :: lmmaes_options where
  "ex_lmmaes_options = \<lparr>opt_n_evolution_paths = Some 1, opt_c_s = None\<rparr>"

text \<open>The matrix exponential of a matrix with one row and one column.\<close>

definition expm_1 :: "mat \<Rightarrow> mat" where
  "expm_1 D = [[exp (D ! 0 ! 0)]]"

definition ex_problem_1 :: problem where
  "ex_problem_1 = ex_problem\<lparr>ndim_problem := 1\<rparr>"

definition ex_strategy_3 :: strategy where
  "ex_strategy_3 = ex_strategy\<lparr>n_individuals := 3, initialize_mean := (\<lambda>r st. [1])\<rparr>"

definition ex_lmmaes_static :: lmmaes_static where
  "ex_lmmaes_static = \<lparr>n_evolution_paths = 1, c_d = [1]\<rparr>"

definition ex_lmmaes_coeffs :: lmmaes_coeffs where
  "ex_lmmaes_coeffs = \<lparr>c_s = 6, s_1 = 1 / 2, s_2 = 1 / 2, c_c = [3]\<rparr>"


definition ex_lmmaes_static_2 :: lmmaes_static where
  "ex_lmmaes_static_2 = \<lparr>n_evolution_paths = 1, c_d = [1 / 2]\<rparr>"

definition ex_state_2 :: run_state where
  "ex_state_2 = (start_state 1)\<lparr>n_function_evaluations := 2\<rparr>"

definition ex_problem_b1 :: problem where
  "ex_problem_b1 = ex_problem\<lparr>max_function_evaluations := 1\<rparr>"

text \<open>
  A runtime limit of five with a clock that steps back after its second reading, and a
  runtime limit of one with a clock that does not.
\<close>

definition ex_problem_back :: problem where
  "ex_problem_back =
     ex_problem_1\<lparr>max_runtime := Some 5, clock := (\<lambda>i. if i = 1 then 6 else 4)\<rparr>"

definition ex_problem_late :: problem where
  "ex_problem_late = ex_problem_1\<lparr>max_runtime := Some 1\<rparr>"

section \<open>Properties of the optimizer base\<close>

lemma evaluate_fitness_fields [simp]:
  "fst (evaluate_fitness p st x) = fitness_function p x"
  "n_function_evaluations (snd (evaluate_fitness p st x)) = n_function_evaluations st + 1"
  "sigma (snd (evaluate_fitness p st x)) = sigma st"
  "n_generations (snd (evaluate_fitness p st x)) = n_generations st"
  "n_draws (snd (evaluate_fitness p st x)) = n_draws st"
  "n_clock (snd (evaluate_fitness p st x)) = n_clock st"
  by (simp_all add: evaluate_fitness_def Let_def split: option.splits prod.splits)

lemma evaluate_fitness_best:
  "\<exists>bx by. best_so_far (snd (evaluate_fitness p st x)) = Some (bx, by)"
  by (auto simp add: evaluate_fitness_def Let_def split: option.splits prod.splits)

lemma evaluate_fitness_best_draws:
  "best_so_far (snd (evaluate_fitness p (st\<lparr>n_draws := k\<rparr>) x)) =
   best_so_far (snd (evaluate_fitness p st x))"
  by (simp add: evaluate_fitness_def Let_def split: option.splits prod.splits)

lemma check_terminations_fields [simp]:
  "n_function_evaluations (snd (check_terminations p st)) = n_function_evaluations st"
  "best_so_far (snd (check_terminations p st)) = best_so_far st"
  "sigma (snd (check_terminations p st)) = sigma st"
  "n_generations (snd (check_terminations p st)) = n_generations st"
  "n_draws (snd (check_terminations p st)) = n_draws st"
  "n_clock (snd (check_terminations p st)) = n_clock st + 1"
  by (simp_all add: check_terminations_def Let_def)

section \<open>Properties of SRS\<close>

lemma srs_iterate_unfold:
  "srs_iterate p h st x =
     (let delta_x = smul (sigma st) (standard_normal p (n_draws st) (ndim_problem p));
          ev = evaluate_fitness p (st\<lparr>n_draws := n_draws st + 1\<rparr>) (vadd x delta_x);
          st3 = (snd ev)\<lparr>n_draws := n_draws st + 2\<rparr>
      in if uniform p (n_draws st + 1) < beta h
         then Inr (vadd x (smul (alpha h) delta_x), fitness_function p (vadd x delta_x), st3)
         else (case best_so_far (snd ev) of
                 None \<Rightarrow> Inl TypeError
               | Some (bx, by) \<Rightarrow>
                   Inr (vadd x (smul (alpha h) (vsub bx x)), fitness_function p (vadd x delta_x),
                        st3)))"
  by (simp add: srs_iterate_def Let_def case_prod_beta split: option.splits)

lemma srs_iterate_fields:
  assumes "srs_iterate p h st x = Inr (x1, y, st1)"
  shows "sigma st1 = sigma st" "n_generations st1 = n_generations st"
    "n_function_evaluations st1 = n_function_evaluations st + 1"
    "n_clock st1 = n_clock st"
  using assms
  by (auto simp add: srs_iterate_unfold Let_def split: if_splits option.splits)

lemma srs_iterate_result:
  fixes p h st x
  defines "delta_x \<equiv> smul (sigma st) (standard_normal p (n_draws st) (ndim_problem p))"
  shows "\<exists>bx by st1.
     srs_iterate p h st x =
       Inr (vadd x (smul (alpha h)
                     (if uniform p (n_draws st + 1) < beta h then delta_x else vsub bx x)),
            fitness_function p (vadd x delta_x), st1) \<and>
     n_function_evaluations st1 = n_function_evaluations st + 1 \<and>
     best_so_far st1 = Some (bx, by) \<and>
     best_so_far st1 = best_so_far (snd (evaluate_fitness p st (vadd x delta_x)))"
proof -
  let ?ev = "evaluate_fitness p (st\<lparr>n_draws := n_draws st + 1\<rparr>) (vadd x delta_x)"
  let ?st3 = "(snd ?ev)\<lparr>n_draws := n_draws st + 2\<rparr>"
  obtain bx "by" where b: "best_so_far (snd ?ev) = Some (bx, by)"
    using evaluate_fitness_best by blast
  have "srs_iterate p h st x =
       Inr (vadd x (smul (alpha h)
                     (if uniform p (n_draws st + 1) < beta h then delta_x else vsub bx x)),
            fitness_function p (vadd x delta_x), ?st3)"
    using b by (simp add: srs_iterate_unfold Let_def delta_x_def)
  moreover have "n_function_evaluations ?st3 = n_function_evaluations st + 1"
    by simp
  moreover have "best_so_far ?st3 = Some (bx, by)"
    using b by simp
  moreover have "best_so_far ?st3 = best_so_far (snd (evaluate_fitness p st (vadd x delta_x)))"
    by (simp add: evaluate_fitness_best_draws)
  ultimately show ?thesis by blast
qed

text \<open>
  C5. \<^verbatim>\<open>SRS.iterate\<close> evaluates exactly one candidate, \<open>x + delta_x\<close> with
  \<open>delta_x = sigma * z\<close> for the drawn noise \<open>z\<close>: the evaluation counter goes up by
  one and the returned fitness is that of \<open>x + delta_x\<close>. It then returns \<open>x\<close> moved
  by \<open>alpha * delta_x\<close> when the uniform draw is below \<open>beta\<close>, and by
  \<open>alpha * (best_so_far_x - x)\<close> otherwise, where \<open>best_so_far_x\<close> is the best point
  after the evaluation of the candidate.
\<close>

theorem srs_iterate_one_candidate:
  fixes p h st x
  defines "delta_x \<equiv> smul (sigma st) (standard_normal p (n_draws st) (ndim_problem p))"
  shows "\<exists>bx by st1.
     srs_iterate p h st x =
       Inr (vadd x (smul (alpha h)
                     (if uniform p (n_draws st + 1) < beta h then delta_x else vsub bx x)),
            fitness_function p (vadd x delta_x), st1) \<and>
     n_function_evaluations st1 = n_function_evaluations st + 1 \<and>
     best_so_far st1 = Some (bx, by) \<and>
     best_so_far st1 = best_so_far (snd (evaluate_fitness p st (vadd x delta_x)))"
  unfolding delta_x_def by (rule srs_iterate_result)

text \<open>
  C3. In every pass through the loop of \<^verbatim>\<open>SRS.optimize\<close> the step-size becomes
  \<open>max (gamma * sigma) min_sigma\<close>: it is at least \<open>min_sigma\<close> afterwards, and it is
  \<open>gamma * sigma\<close> as long as that is not below the floor.
\<close>

theorem srs_sigma_recurrence:
  assumes "srs_generation p h (x, fitness, st) = Inr (stop, x1, y, fitness1, st1)"
  shows "sigma st1 = max (gamma h * sigma st) (min_sigma h) \<and>
         min_sigma h \<le> sigma st1 \<and>
         (min_sigma h \<le> gamma h * sigma st \<longrightarrow> sigma st1 = gamma h * sigma st)"
proof -
  from assms obtain x2 y2 st2 where it: "srs_iterate p h st x = Inr (x2, y2, st2)"
    and st1: "st1 = snd (check_terminations p
                (st2\<lparr>sigma := max (gamma h * sigma st2) (min_sigma h)\<rparr>))"
    by (auto simp add: srs_generation_def Let_def case_prod_beta split: sum.splits)
  have "sigma st1 = max (gamma h * sigma st) (min_sigma h)"
    using srs_iterate_fields(1)[OF it] st1 by simp
  then show ?thesis by auto
qed

theorem srs_sigma_recurrence_witness:
  "srs_generation ex_problem ex_srs ([3, 3], [], start_state (1 / 10)) =
     Inr (False, [303 / 100, 303 / 100], 961 / 50, [961 / 50],
          \<lparr>n_function_evaluations = 1, best_so_far = Some ([31 / 10, 31 / 10], 961 / 50),
           runtime = 0, termination_signal = None, n_generations = 0, sigma = 99 / 1000,
           n_clock = 1, n_draws = 2\<rparr>) \<and>
   (99 / 1000 :: real) = max (gamma ex_srs * sigma (start_state (1 / 10))) (min_sigma ex_srs) \<and>
   min_sigma ex_srs \<le> 99 / 1000"
proof -
  have run: "srs_generation ex_problem ex_srs ([3, 3], [], start_state (1 / 10)) =
     Inr (False, [303 / 100, 303 / 100], 961 / 50, [961 / 50],
          \<lparr>n_function_evaluations = 1, best_so_far = Some ([31 / 10, 31 / 10], 961 / 50),
           runtime = 0, termination_signal = None, n_generations = 0, sigma = 99 / 1000,
           n_clock = 1, n_draws = 2\<rparr>)"
    by code_simp
  from srs_sigma_recurrence [OF run] show ?thesis
    using run by simp
qed

text \<open>
  C10. With the default \<open>beta = 0.0\<close> and a uniform draw in \<open>[0, 1)\<close>, the test
  \<open>probability < beta\<close> fails: \<^verbatim>\<open>SRS.iterate\<close> always returns \<open>x\<close> moved by
  \<open>alpha * (best_so_far_x - x)\<close>, whatever the perturbation was.
\<close>

theorem srs_default_beta_exploits:
  assumes "srs_init opts = Inr h" and "opt_beta opts = None"
    and "\<And>i. 0 \<le> uniform p i \<and> uniform p i < 1"
  shows "beta h = 0 \<and>
         (\<exists>bx by y st1. srs_iterate p h st x = Inr (vadd x (smul (alpha h) (vsub bx x)), y, st1) \<and>
            best_so_far st1 = Some (bx, by))"
proof -
  from assms(1,2) have b0: "beta h = 0"
    by (auto simp add: srs_init_def Let_def get_default_def split: if_splits)
  have "\<not> uniform p (n_draws st + 1) < beta h"
    using assms(3)[of "n_draws st + 1"] b0 by simp
  with srs_iterate_result[of p h st x] b0 show ?thesis
    by auto
qed

theorem srs_default_beta_exploits_witness:
  "srs_init ex_srs_options = Inr ex_srs \<and> opt_beta ex_srs_options = None \<and>
   (\<forall>i. 0 \<le> uniform ex_problem i \<and> uniform ex_problem i < 1) \<and>
   beta ex_srs = 0 \<and>
   (\<exists>bx by y st1.
      srs_iterate ex_problem ex_srs (start_state (1 / 10)) [3, 3] =
        Inr (vadd [3, 3] (smul (alpha ex_srs) (vsub bx [3, 3])), y, st1) \<and>
      best_so_far st1 = Some (bx, by))"
proof -
  have h1: "srs_init ex_srs_options = Inr ex_srs"
    by code_simp
  have h2: "opt_beta ex_srs_options = None"
    by (simp add: ex_srs_options_def)
  have h3: "0 \<le> uniform ex_problem i \<and> uniform ex_problem i < 1" for i
    by (simp add: ex_problem_def)
  from srs_default_beta_exploits [OF h1 h2 h3] show ?thesis
    using h1 h2 h3 by blast
qed

section \<open>Properties of LMMAES\<close>

lemma lmmaes_tm_row_length [simp]: "length (lmmaes_tm_row e c z_w tm k) = length tm"
  by (simp add: lmmaes_tm_row_def Let_def)

lemma lmmaes_tm_fold_length [simp]:
  "length (foldl (lmmaes_tm_row e c z_w) tm [0..<m]) = length tm"
  by (induction m) simp_all

lemma lmmaes_tm_row_nth:
  "k < length tm \<Longrightarrow>
   lmmaes_tm_row e c z_w tm j ! k =
     (if k = j
      then vadd (smul (if 1 - c_c c ! k < 0 then 0.5 else 1 - c_c c ! k) (tm ! k))
             (smul (sqrt (if mu_eff e * (c_c c ! k) * (2 - c_c c ! k) < 0 then (0.5 :: real) ^ 2
                          else mu_eff e * (c_c c ! k) * (2 - c_c c ! k))) z_w)
      else tm ! k)"
  by (simp add: lmmaes_tm_row_def Let_def)

lemma lmmaes_tm_fold_nth:
  "k < length tm \<Longrightarrow>
   foldl (lmmaes_tm_row e c z_w) tm [0..<m] ! k =
     (if k < m
      then vadd (smul (if 1 - c_c c ! k < 0 then 0.5 else 1 - c_c c ! k) (tm ! k))
             (smul (sqrt (if mu_eff e * (c_c c ! k) * (2 - c_c c ! k) < 0 then (0.5 :: real) ^ 2
                          else mu_eff e * (c_c c ! k) * (2 - c_c c ! k))) z_w)
      else tm ! k)"
proof (induction m arbitrary: k)
  case 0
  then show ?case by simp
next
  case (Suc m)
  show ?case
  proof (cases "k = m")
    case True
    with Suc.prems have "foldl (lmmaes_tm_row e c z_w) tm [0..<m] ! m = tm ! m"
      using Suc.IH[of m] by simp
    with True Suc.prems show ?thesis
      by (simp add: lmmaes_tm_row_nth)
  next
    case False
    with Suc.prems show ?thesis
      using Suc.IH[of k] by (simp add: lmmaes_tm_row_nth less_Suc_eq)
  qed
qed

lemma lmmaes_update_unfold:
  "lmmaes_update_distribution p e h c (z, d, mean, s, tm, y) st =
     (let dz = foldl (\<lambda>(d_w, z_w) k.
                     (vadd d_w (smul (w e ! k) (d ! (argsort y ! k))),
                      vadd z_w (smul (w e ! k) (z ! (argsort y ! k)))))
              (np_zeros (ndim_problem p), np_zeros (ndim_problem p)) [0..<n_parents e];
          s1 = vadd (smul (s_1 c) s) (smul (s_2 c) (snd dz))
      in ((vadd mean (smul (sigma st) (fst dz)), s1,
           foldl (lmmaes_tm_row e c (snd dz)) tm [0..<n_evolution_paths h]),
          st\<lparr>sigma := sigma st *
                   exp (c_s c / 2 *
                        (sum_list (map (\<lambda>v. v ^ 2) s1) / real (ndim_problem p) - 1))\<rparr>))"
  by (simp add: lmmaes_update_distribution_def Let_def case_prod_beta)

lemma lmmaes_initialize_coeffs:
  "fst (lmmaes_initialize p e opts h r st) =
     (let cs = get_default (opt_c_s opts) (2 * real (n_individuals e) / real (ndim_problem p)) in
      \<lparr>c_s = cs,
       s_1 = (if 1 - cs < 0 then 0.5 else 1 - cs),
       s_2 = sqrt (if mu_eff e * cs * (2 - cs) < 0 then (0.5 :: real) ^ 2
                   else mu_eff e * cs * (2 - cs)),
       c_c = map (\<lambda>k. real (n_individuals e) / (real (ndim_problem p) * 4 ^ k))
                 [0..<n_evolution_paths h]\<rparr>)"
  by (simp add: lmmaes_initialize_def Let_def)

lemma ex_argsort: "argsort [3, 1, 2] = [1, 2, 0]"
  by code_simp

lemma ex_lmmaes_update:
  "lmmaes_update_distribution ex_problem_1 ex_strategy_3 ex_lmmaes_static ex_lmmaes_coeffs
     ([[1], [2], [3]], [[1], [2], [3]], [1], [2], [[4]], [3, 1, 2]) (start_state 1) =
   (([3], [2], [[3]]), (start_state 1)\<lparr>sigma := exp 9\<rparr>)"
  by (simp add: lmmaes_update_distribution_def lmmaes_tm_row_def ex_problem_1_def ex_problem_def
      ex_strategy_3_def ex_strategy_def ex_lmmaes_static_def ex_lmmaes_coeffs_def ex_argsort
      np_zeros_def vadd_def smul_def Let_def start_state_def eval_nat_numeral real_sqrt_divide)

lemma ex_lmmaes_initialize:
  "lmmaes_initialize ex_problem_1 ex_strategy_3 ex_lmmaes_options ex_lmmaes_static False
     (start_state 1) =
   (ex_lmmaes_coeffs, ([[0], [0], [0]], [[0], [0], [0]], [1], [0], [[0]], [0, 0, 0]))"
  by (simp add: lmmaes_initialize_def ex_problem_1_def ex_problem_def ex_strategy_3_def
      ex_strategy_def ex_lmmaes_options_def ex_lmmaes_static_def ex_lmmaes_coeffs_def
      get_default_def np_empty_def np_empty2_def np_zeros_def np_zeros2_def
      Let_def eval_nat_numeral real_sqrt_divide)

text \<open>
  C4. \<^verbatim>\<open>LMMAES._update_distribution\<close> multiplies the step-size by
  \<open>exp (c_s / 2 * (\<parallel>s\<parallel>\<^sup>2 / N - 1))\<close>, where \<open>s\<close> is the evolution path it returns:
  the old path smoothed with the recombined noise, \<open>s_1 * s + s_2 * z_w\<close>.
\<close>

theorem lmmaes_sigma_update:
  assumes "lmmaes_update_distribution p e h c (z, d, mean, s, tm, y) st =
             ((mean1, s1, tm1), st1)"
  shows "sigma st1 =
           sigma st * exp (c_s c / 2 * ((\<Sum>v\<leftarrow>s1. v ^ 2) / real (ndim_problem p) - 1)) \<and>
         (\<exists>z_w. s1 = vadd (smul (s_1 c) s) (smul (s_2 c) z_w))"
  using assms by (auto simp add: lmmaes_update_unfold Let_def)

theorem lmmaes_sigma_update_witness:
  "lmmaes_update_distribution ex_problem_1 ex_strategy_3 ex_lmmaes_static ex_lmmaes_coeffs
     ([[1], [2], [3]], [[1], [2], [3]], [1], [2], [[4]], [3, 1, 2]) (start_state 1) =
   (([3], [2], [[3]]), (start_state 1)\<lparr>sigma := exp 9\<rparr>) \<and>
   sigma ((start_state 1)\<lparr>sigma := exp 9\<rparr>) =
     sigma (start_state 1) *
     exp (c_s ex_lmmaes_coeffs / 2 * ((\<Sum>v\<leftarrow>[2]. v ^ 2) / real (ndim_problem ex_problem_1) - 1))"
  using lmmaes_sigma_update [OF ex_lmmaes_update] ex_lmmaes_update by simp

text \<open>
  C6. The retention coefficients of LMMAES are clamped. \<^verbatim>\<open>initialize\<close> stores
  \<open>1 - c_s\<close> for the evolution path, or \<open>0.5\<close> when that is negative, and the square
  root of the variance term \<open>mu_eff * c_s * (2 - c_s)\<close>, or of \<open>0.5\<^sup>2\<close> when that is
  negative. \<^verbatim>\<open>_update_distribution\<close> does the same for each direction vector \<open>k\<close>
  with \<open>c_c ! k = n_individuals / (N * 4 ^ k)\<close>.
\<close>

theorem lmmaes_clamps:
  assumes "lmmaes_initialize p e opts h r st0 = (c, arrays)"
    and "lmmaes_update_distribution p e h c (z, d, mean, s, tm, y) st =
           ((mean1, s1, tm1), st1)"
    and "k < n_evolution_paths h" and "k < length tm"
  shows "s_1 c = (if 1 - c_s c < 0 then 0.5 else 1 - c_s c) \<and>
         s_2 c = sqrt (if mu_eff e * c_s c * (2 - c_s c) < 0 then (0.5 :: real) ^ 2
                       else mu_eff e * c_s c * (2 - c_s c)) \<and>
         c_c c ! k = real (n_individuals e) / (real (ndim_problem p) * 4 ^ k) \<and>
         (\<exists>z_w. s1 = vadd (smul (s_1 c) s) (smul (s_2 c) z_w) \<and>
            tm1 ! k =
              vadd (smul (if 1 - c_c c ! k < 0 then 0.5 else 1 - c_c c ! k) (tm ! k))
                (smul (sqrt (if mu_eff e * (c_c c ! k) * (2 - c_c c ! k) < 0 then (0.5 :: real) ^ 2
                             else mu_eff e * (c_c c ! k) * (2 - c_c c ! k))) z_w))"
proof -
  from assms(1) have c: "c = fst (lmmaes_initialize p e opts h r st0)"
    by simp
  have c1: "s_1 c = (if 1 - c_s c < 0 then 0.5 else 1 - c_s c)"
    and c2: "s_2 c = sqrt (if mu_eff e * c_s c * (2 - c_s c) < 0 then (0.5 :: real) ^ 2
                       else mu_eff e * c_s c * (2 - c_s c))"
    and c3: "c_c c ! k = real (n_individuals e) / (real (ndim_problem p) * 4 ^ k)"
    unfolding c lmmaes_initialize_coeffs using assms(3) by (simp_all add: Let_def)
  let ?dz = "foldl (\<lambda>(d_w, z_w) k.
                     (vadd d_w (smul (w e ! k) (d ! (argsort y ! k))),
                      vadd z_w (smul (w e ! k) (z ! (argsort y ! k)))))
              (np_zeros (ndim_problem p), np_zeros (ndim_problem p)) [0..<n_parents e]"
  from assms(2) have s1: "s1 = vadd (smul (s_1 c) s) (smul (s_2 c) (snd ?dz))"
    and tm1: "tm1 = foldl (lmmaes_tm_row e c (snd ?dz)) tm [0..<n_evolution_paths h]"
    by (simp_all add: lmmaes_update_unfold Let_def)
  have "tm1 ! k =
      vadd (smul (if 1 - c_c c ! k < 0 then 0.5 else 1 - c_c c ! k) (tm ! k))
        (smul (sqrt (if mu_eff e * (c_c c ! k) * (2 - c_c c ! k) < 0 then (0.5 :: real) ^ 2
                     else mu_eff e * (c_c c ! k) * (2 - c_c c ! k))) (snd ?dz))"
    unfolding tm1 using assms(3,4) by (simp add: lmmaes_tm_fold_nth)
  with s1 c1 c2 c3 show ?thesis by blast
qed

theorem lmmaes_clamps_witness:
  "lmmaes_initialize ex_problem_1 ex_strategy_3 ex_lmmaes_options ex_lmmaes_static False
     (start_state 1) =
   (ex_lmmaes_coeffs, ([[0], [0], [0]], [[0], [0], [0]], [1], [0], [[0]], [0, 0, 0])) \<and>
   lmmaes_update_distribution ex_problem_1 ex_strategy_3 ex_lmmaes_static ex_lmmaes_coeffs
     ([[1], [2], [3]], [[1], [2], [3]], [1], [2], [[4]], [3, 1, 2]) (start_state 1) =
   (([3], [2], [[3]]), (start_state 1)\<lparr>sigma := exp 9\<rparr>) \<and>
   (0 :: nat) < n_evolution_paths ex_lmmaes_static \<and> (0 :: nat) < length [[4 :: real]] \<and>
   1 - c_s ex_lmmaes_coeffs < 0 \<and> s_1 ex_lmmaes_coeffs = 1 / 2 \<and>
   mu_eff ex_strategy_3 * c_s ex_lmmaes_coeffs * (2 - c_s ex_lmmaes_coeffs) < 0 \<and>
   s_2 ex_lmmaes_coeffs = sqrt ((1 / 2)\<^sup>2) \<and>
   c_c ex_lmmaes_coeffs ! 0 =
     real (n_individuals ex_strategy_3) / (real (ndim_problem ex_problem_1) * 4 ^ 0) \<and>
   1 - c_c ex_lmmaes_coeffs ! 0 < 0 \<and>
   (\<exists>z_w. [2] = vadd (smul (1 / 2) [2]) (smul (1 / 2) z_w) \<and>
      [[3 :: real]] ! 0 = vadd (smul (1 / 2) ([[4]] ! 0)) (smul (sqrt ((1 / 2)\<^sup>2)) z_w))"
proof -
  have k: "0 < n_evolution_paths ex_lmmaes_static" "0 < length [[4 :: real]]"
    by (simp_all add: ex_lmmaes_static_def)
  have neg: "1 - c_s ex_lmmaes_coeffs < 0"
    "mu_eff ex_strategy_3 * c_s ex_lmmaes_coeffs * (2 - c_s ex_lmmaes_coeffs) < 0"
    "1 - c_c ex_lmmaes_coeffs ! 0 < 0"
    "mu_eff ex_strategy_3 * (c_c ex_lmmaes_coeffs ! 0) * (2 - c_c ex_lmmaes_coeffs ! 0) < 0"
    by (simp_all add: ex_lmmaes_coeffs_def ex_strategy_3_def ex_strategy_def)
  from lmmaes_clamps [OF ex_lmmaes_initialize ex_lmmaes_update k]
  show ?thesis
    using ex_lmmaes_initialize ex_lmmaes_update k neg
    by (simp add: ex_lmmaes_coeffs_def)
qed

section \<open>Properties of XNES\<close>

subsection \<open>The utility weights\<close>

lemma argsort_length [simp]: "length (argsort ys) = length ys"
  by (simp add: argsort_def)



lemma scatter_length [simp]:
  "length (foldl (\<lambda>u (i, ord). u[ord := g i]) u ps) = length u"
  by (induction ps arbitrary: u) (simp_all add: case_prod_beta)







subsection \<open>Square matrices\<close>

lemma squareD:
  "square n A \<Longrightarrow> length A = n"
  "square n A \<Longrightarrow> i < n \<Longrightarrow> length (A ! i) = n"
  by (auto simp add: square_def list_all_length)

lemma squareI:
  "length A = n \<Longrightarrow> (\<And>i. i < n \<Longrightarrow> length (A ! i) = n) \<Longrightarrow> square n A"
  by (auto simp add: square_def list_all_length)










lemma square_msmul [simp]: "square n A \<Longrightarrow> square n (msmul c A)"
  by (rule squareI) (simp_all add: msmul_def smul_def squareD)


lemma square_madd [simp]: "square n A \<Longrightarrow> square n B \<Longrightarrow> square n (madd A B)"
  by (rule squareI) (simp_all add: madd_def vadd_def squareD)


lemma square_msub [simp]: "square n A \<Longrightarrow> square n B \<Longrightarrow> square n (msub A B)"
  by (rule squareI) (simp_all add: msub_def vsub_def squareD)


lemma square_mneg [simp]: "square n A \<Longrightarrow> square n (mneg A)"
  by (rule squareI) (simp_all add: mneg_def squareD)


lemma square_table [simp]: "square n (map (\<lambda>i. map (f i) [0..<n]) [0..<n])"
  by (rule squareI) simp_all

subsection \<open>The argument of the matrix exponential\<close>


lemma xnes_init_eye [simp]: "eye (xnes_init p) = np_eye (ndim_problem p)"
  by (simp add: xnes_init_def Let_def)




subsection \<open>The inverse of the transform\<close>



text \<open>Every result of the loop of \<^verbatim>\<open>XNES.optimize\<close> is a reachable state.\<close>

lemma xnes_loop_reachable:
  "xnes_reachable expm p e0 ls \<Longrightarrow> xnes_loop fuel expm p (xnes_init p) ls = Some final \<Longrightarrow>
   xnes_reachable expm p e0 final"
proof (induction fuel arbitrary: ls)
  case 0
  then show ?case by simp
next
  case (Suc fuel)
  show ?case
  proof (cases "xnes_generation expm p (xnes_init p) ls")
    case (Inl f)
    with Suc.prems show ?thesis
      by (auto intro: xnes_reachable.break)
  next
    case (Inr nxt)
    with Suc.prems have "xnes_reachable expm p e0 nxt"
      by (auto intro: xnes_reachable.continue)
    with Suc.IH Suc.prems Inr show ?thesis by simp
  qed
qed








subsection \<open>The log-determinant\<close>








section \<open>Termination during the sampling of a population\<close>

text \<open>
  Nothing but the clock changes between two termination checks. A check that follows
  one that fired fires too, unless the first fired on the runtime and the clock now
  reads less than \<^verbatim>\<open>max_runtime\<close>.
\<close>

lemma check_terminations_again:
  assumes fired: "fst (check_terminations p st)"
    and late: "termination_signal (snd (check_terminations p st)) = Some MAX_RUNTIME \<Longrightarrow>
                 (case max_runtime p of None \<Rightarrow> False
                  | Some m \<Rightarrow> m \<le> clock p (n_clock (snd (check_terminations p st))))"
  shows "fst (check_terminations p (snd (check_terminations p st)))"
  using fired late
  by (auto simp add: check_terminations_def termination_reason_def Let_def
      split: option.splits if_splits)

lemma check_terminations_signal:
  "fst (check_terminations p st) \<Longrightarrow> termination_signal (snd (check_terminations p st)) \<noteq> None"
  by (simp add: check_terminations_def Let_def)

lemma upt_split:
  assumes "[0..<n] = pre @ k # post"
  shows "pre = [0..<k] \<and> k < n"
proof -
  have len: "length pre < n"
    using arg_cong[OF assms, of length] by simp
  have "[0..<n] ! length pre = k"
    unfolding assms by simp
  with len have k: "k = length pre" by simp
  have "take k [0..<n] = pre"
    unfolding assms k by simp
  with len k show ?thesis by (simp add: take_upt)
qed

lemma lmmaes_sampling_stop:
  assumes "lmmaes_sampling p e h mean tm ks (z, d, y, st) = ((z1, d1, y1, st1), Some k)"
  shows "\<exists>pre post st'. ks = pre @ k # post \<and>
           n_function_evaluations st1 = n_function_evaluations st + length pre \<and>
           st1 = snd (check_terminations p st') \<and> fst (check_terminations p st') \<and>
           sigma st1 = sigma st \<and> n_generations st1 = n_generations st \<and>
           (\<forall>j. j \<notin> set pre \<longrightarrow> z1 ! j = z ! j \<and> d1 ! j = d ! j \<and> y1 ! j = y ! j)"
  using assms
proof (induction ks arbitrary: z d y st)
  case Nil
  then show ?case by simp
next
  case (Cons i ks)
  show ?case
  proof (cases "fst (check_terminations p st)")
    case True
    with Cons.prems have "k = i" "z1 = z" "d1 = d" "y1 = y"
      "st1 = snd (check_terminations p st)"
      by (simp_all add: case_prod_beta)
    with True show ?thesis
      by (intro exI[of _ "[]" ] exI[of _ ks] exI[of _ st]; simp)
  next
    case False
    let ?st1 = "snd (check_terminations p st)"
    let ?zk = "standard_normal p (n_draws ?st1) (ndim_problem p)"
    let ?st2 = "?st1\<lparr>n_draws := n_draws ?st1 + 1\<rparr>"
    let ?dk = "lmmaes_direction h tm (n_generations ?st2) ?zk"
    let ?ev = "evaluate_fitness p ?st2 (vadd mean (smul (sigma ?st2) ?dk))"
    from False Cons.prems
    have "lmmaes_sampling p e h mean tm ks
            (z[i := ?zk], d[i := ?dk], y[i := fst ?ev], snd ?ev) = ((z1, d1, y1, st1), Some k)"
      by (simp add: case_prod_beta Let_def)
    from Cons.IH[OF this] obtain pre post st' where
      ks: "ks = pre @ k # post"
      and n: "n_function_evaluations st1 = n_function_evaluations (snd ?ev) + length pre"
      and st1: "st1 = snd (check_terminations p st')" "fst (check_terminations p st')"
      and keep: "sigma st1 = sigma (snd ?ev)" "n_generations st1 = n_generations (snd ?ev)"
      and same: "\<forall>j. j \<notin> set pre \<longrightarrow>
                   z1 ! j = z[i := ?zk] ! j \<and> d1 ! j = d[i := ?dk] ! j \<and>
                   y1 ! j = y[i := fst ?ev] ! j"
      by blast
    show ?thesis
    proof (rule exI[of _ "i # pre"], rule exI[of _ post], rule exI[of _ st'], intro conjI)
      show "i # ks = (i # pre) @ k # post" using ks by simp
      show "n_function_evaluations st1 = n_function_evaluations st + length (i # pre)"
        using n by simp
      show "st1 = snd (check_terminations p st')" "fst (check_terminations p st')"
        using st1 by simp_all
      show "sigma st1 = sigma st" "n_generations st1 = n_generations st"
        using keep by simp_all
      show "\<forall>j. j \<notin> set (i # pre) \<longrightarrow> z1 ! j = z ! j \<and> d1 ! j = d ! j \<and> y1 ! j = y ! j"
        using same by auto
    qed
  qed
qed

lemma xnes_sampling_stop:
  assumes "xnes_sampling p mean a ks (x, y, st) = ((x1, y1, st1), Some k)"
  shows "\<exists>pre post st'. ks = pre @ k # post \<and>
           n_function_evaluations st1 = n_function_evaluations st + length pre \<and>
           st1 = snd (check_terminations p st') \<and> fst (check_terminations p st') \<and>
           n_generations st1 = n_generations st \<and>
           (\<forall>j. j \<notin> set pre \<longrightarrow> x1 ! j = x ! j \<and> y1 ! j = y ! j)"
  using assms
proof (induction ks arbitrary: x y st)
  case Nil
  then show ?case by simp
next
  case (Cons i ks)
  show ?case
  proof (cases "fst (check_terminations p st)")
    case True
    with Cons.prems have "k = i" "x1 = x" "y1 = y" "st1 = snd (check_terminations p st)"
      by (simp_all add: case_prod_beta)
    with True show ?thesis
      by (intro exI[of _ "[]" ] exI[of _ ks] exI[of _ st]; simp)
  next
    case False
    let ?st1 = "snd (check_terminations p st)"
    let ?xk = "vadd mean (mat_vec a (standard_normal p (n_draws ?st1) (ndim_problem p)))"
    let ?st2 = "?st1\<lparr>n_draws := n_draws ?st1 + 1\<rparr>"
    let ?ev = "evaluate_fitness p ?st2 ?xk"
    from False Cons.prems
    have "xnes_sampling p mean a ks (x[i := ?xk], y[i := fst ?ev], snd ?ev) =
            ((x1, y1, st1), Some k)"
      by (simp add: case_prod_beta Let_def)
    from Cons.IH[OF this] obtain pre post st' where
      ks: "ks = pre @ k # post"
      and n: "n_function_evaluations st1 = n_function_evaluations (snd ?ev) + length pre"
      and st1: "st1 = snd (check_terminations p st')" "fst (check_terminations p st')"
      and keep: "n_generations st1 = n_generations (snd ?ev)"
      and same: "\<forall>j. j \<notin> set pre \<longrightarrow> x1 ! j = x[i := ?xk] ! j \<and> y1 ! j = y[i := fst ?ev] ! j"
      by blast
    show ?thesis
    proof (rule exI[of _ "i # pre"], rule exI[of _ post], rule exI[of _ st'], intro conjI)
      show "i # ks = (i # pre) @ k # post" using ks by simp
      show "n_function_evaluations st1 = n_function_evaluations st + length (i # pre)"
        using n by simp
      show "st1 = snd (check_terminations p st')" "fst (check_terminations p st')"
        using st1 by simp_all
      show "n_generations st1 = n_generations st"
        using keep by simp
      show "\<forall>j. j \<notin> set (i # pre) \<longrightarrow> x1 ! j = x ! j \<and> y1 ! j = y ! j"
        using same by auto
    qed
  qed
qed

text \<open>
  When the check fires before candidate \<open>k\<close>, \<^verbatim>\<open>iterate\<close> returns there, whatever
  the clock does.
\<close>

lemma lmmaes_early_return:
  assumes stop: "lmmaes_sampling p e h mean tm [0..<n_individuals e] (z, d, y, st) =
                 ((z1, d1, y1, st1), Some k)"
  shows "k < n_individuals e \<and>
         lmmaes_iterate p e h z d mean tm y st = (z1, d1, y1, st1) \<and>
         n_function_evaluations st1 = n_function_evaluations st + k \<and>
         (\<forall>j\<ge>k. z1 ! j = z ! j \<and> d1 ! j = d ! j \<and> y1 ! j = y ! j) \<and>
         termination_signal st1 \<noteq> None"
proof -
  from lmmaes_sampling_stop[OF stop] obtain pre post st' where
    ks: "[0..<n_individuals e] = pre @ k # post"
    and n: "n_function_evaluations st1 = n_function_evaluations st + length pre"
    and st1: "st1 = snd (check_terminations p st')" "fst (check_terminations p st')"
    and same: "\<forall>j. j \<notin> set pre \<longrightarrow> z1 ! j = z ! j \<and> d1 ! j = d ! j \<and> y1 ! j = y ! j"
    by blast
  from upt_split[OF ks] have pre: "pre = [0..<k]" and k: "k < n_individuals e"
    by simp_all
  have it: "lmmaes_iterate p e h z d mean tm y st = (z1, d1, y1, st1)"
    by (simp add: lmmaes_iterate_def stop)
  have unchanged: "\<forall>j\<ge>k. z1 ! j = z ! j \<and> d1 ! j = d ! j \<and> y1 ! j = y ! j"
    using same pre by simp
  have sig: "termination_signal st1 \<noteq> None"
    unfolding st1(1) by (rule check_terminations_signal[OF st1(2)])
  from k it n pre unchanged sig show ?thesis
    by simp
qed

lemma lmmaes_early_break:
  assumes stop: "lmmaes_sampling p e h mean tm [0..<n_individuals e] (z, d, y, st) =
                 ((z1, d1, y1, st1), Some k)"
    and late: "termination_signal st1 = Some MAX_RUNTIME \<longrightarrow>
                 (case max_runtime p of None \<Rightarrow> False | Some m \<Rightarrow> m \<le> clock p (n_clock st1))"
  shows "\<exists>fitness1 st2.
            lmmaes_generation p e opts h (c, (z, d, mean, s, tm, y), fitness, st) =
              Inl (c, (z1, d1, mean, s, tm, y1), fitness1, st2) \<and>
            sigma st2 = sigma st \<and> n_generations st2 = n_generations st \<and>
            n_function_evaluations st2 = n_function_evaluations st + k"
proof -
  from lmmaes_sampling_stop[OF stop] obtain pre post st' where
    ks: "[0..<n_individuals e] = pre @ k # post"
    and n: "n_function_evaluations st1 = n_function_evaluations st + length pre"
    and st1: "st1 = snd (check_terminations p st')" "fst (check_terminations p st')"
    and keep: "sigma st1 = sigma st" "n_generations st1 = n_generations st"
    by blast
  from upt_split[OF ks] have pre: "pre = [0..<k]"
    by simp
  have it: "lmmaes_iterate p e h z d mean tm y st = (z1, d1, y1, st1)"
    by (simp add: lmmaes_iterate_def stop)
  have again: "fst (check_terminations p st1)"
    unfolding st1(1) using late unfolding st1(1)
    by (intro check_terminations_again[OF st1(2)]) simp
  have gen: "lmmaes_generation p e opts h (c, (z, d, mean, s, tm, y), fitness, st) =
      Inl (c, (z1, d1, mean, s, tm, y1), (if record_fitness p then fitness @ y1 else fitness),
           snd (check_terminations p st1))"
    using again by (simp add: lmmaes_generation_def it Let_def case_prod_beta)
  from n pre gen keep show ?thesis
    by simp
qed

lemma xnes_early_return:
  assumes stop: "xnes_sampling p mean a [0..<n_individuals e] (x, y, st) =
                 ((x1, y1, st1), Some k)"
  shows "k < n_individuals e \<and>
         xnes_iterate p e x y mean a st = (x1, y1, st1) \<and>
         n_function_evaluations st1 = n_function_evaluations st + k \<and>
         (\<forall>j\<ge>k. x1 ! j = x ! j \<and> y1 ! j = y ! j) \<and>
         termination_signal st1 \<noteq> None"
proof -
  from xnes_sampling_stop[OF stop] obtain pre post st' where
    ks: "[0..<n_individuals e] = pre @ k # post"
    and n: "n_function_evaluations st1 = n_function_evaluations st + length pre"
    and st1: "st1 = snd (check_terminations p st')" "fst (check_terminations p st')"
    and same: "\<forall>j. j \<notin> set pre \<longrightarrow> x1 ! j = x ! j \<and> y1 ! j = y ! j"
    by blast
  from upt_split[OF ks] have pre: "pre = [0..<k]" and k: "k < n_individuals e"
    by simp_all
  have it: "xnes_iterate p e x y mean a st = (x1, y1, st1)"
    by (simp add: xnes_iterate_def stop)
  have unchanged: "\<forall>j\<ge>k. x1 ! j = x ! j \<and> y1 ! j = y ! j"
    using same pre by simp
  have sig: "termination_signal st1 \<noteq> None"
    unfolding st1(1) by (rule check_terminations_signal[OF st1(2)])
  from k it n pre unchanged sig show ?thesis
    by simp
qed

lemma xnes_early_break:
  assumes stop: "xnes_sampling p mean a [0..<n_individuals e] (x, y, st) =
                 ((x1, y1, st1), Some k)"
    and late: "termination_signal st1 = Some MAX_RUNTIME \<longrightarrow>
                 (case max_runtime p of None \<Rightarrow> False | Some m \<Rightarrow> m \<le> clock p (n_clock st1))"
  shows "\<exists>st2.
            xnes_generation expm p h (e, (x, y, mean, a, inv_a, log_det), st) =
              Inl (e, (x1, y1, mean, a, inv_a, log_det), st2) \<and>
            n_generations st2 = n_generations st \<and>
            n_function_evaluations st2 = n_function_evaluations st + k"
proof -
  from xnes_sampling_stop[OF stop] obtain pre post st' where
    ks: "[0..<n_individuals e] = pre @ k # post"
    and n: "n_function_evaluations st1 = n_function_evaluations st + length pre"
    and st1: "st1 = snd (check_terminations p st')" "fst (check_terminations p st')"
    and keep: "n_generations st1 = n_generations st"
    by blast
  from upt_split[OF ks] have pre: "pre = [0..<k]"
    by simp
  have it: "xnes_iterate p e x y mean a st = (x1, y1, st1)"
    by (simp add: xnes_iterate_def stop)
  have again: "fst (check_terminations p st1)"
    unfolding st1(1) using late unfolding st1(1)
    by (intro check_terminations_again[OF st1(2)]) simp
  have gen: "xnes_generation expm p h (e, (x, y, mean, a, inv_a, log_det), st) =
      Inl (e, (x1, y1, mean, a, inv_a, log_det), snd (check_terminations p st1))"
    using again by (simp add: xnes_generation_def it Let_def case_prod_beta)
  from n pre gen keep show ?thesis
    by simp
qed

lemma ex_lmmaes_sampling_back:
  "lmmaes_sampling ex_problem_back ex_strategy_3 ex_lmmaes_static [1] [[0]]
     [0..<n_individuals ex_strategy_3]
     ([[0], [0], [0]], [[0], [0], [0]], [0, 0, 0], start_state 1) =
   (([[1], [0], [0]], [[1], [0], [0]], [4, 0, 0],
     \<lparr>n_function_evaluations = 1, best_so_far = Some ([2], 4), runtime = 6,
      termination_signal = Some MAX_RUNTIME, n_generations = 0, sigma = 1,
      n_clock = 2, n_draws = 1\<rparr>), Some 1)"
  by code_simp

lemma ex_check_back:
  "check_terminations ex_problem_back
     \<lparr>n_function_evaluations = 1, best_so_far = Some ([2], 4), runtime = 6,
      termination_signal = Some MAX_RUNTIME, n_generations = 0, sigma = 1,
      n_clock = 2, n_draws = 1\<rparr> =
   (False,
     \<lparr>n_function_evaluations = 1, best_so_far = Some ([2], 4), runtime = 4,
      termination_signal = None, n_generations = 0, sigma = 1,
      n_clock = 3, n_draws = 1\<rparr>)"
  by code_simp

lemma ex_argsort_back: "argsort [4, 0, 0] = [1, 2, 0]"
  by code_simp

lemma ex_lmmaes_update_back:
  "lmmaes_update_distribution ex_problem_back ex_strategy_3 ex_lmmaes_static ex_lmmaes_coeffs
     ([[1], [0], [0]], [[1], [0], [0]], [1], [0], [[0]], [4, 0, 0])
     \<lparr>n_function_evaluations = 1, best_so_far = Some ([2], 4), runtime = 4,
      termination_signal = None, n_generations = 0, sigma = 1,
      n_clock = 3, n_draws = 1\<rparr> =
   (([1], [0], [[0]]),
     \<lparr>n_function_evaluations = 1, best_so_far = Some ([2], 4), runtime = 4,
      termination_signal = None, n_generations = 0, sigma = exp (- 3),
      n_clock = 3, n_draws = 1\<rparr>)"
  by (simp add: lmmaes_update_distribution_def lmmaes_tm_row_def ex_problem_back_def
      ex_problem_1_def ex_problem_def
      ex_strategy_3_def ex_strategy_def ex_lmmaes_static_def ex_lmmaes_coeffs_def ex_argsort_back
      np_zeros_def vadd_def smul_def Let_def eval_nat_numeral real_sqrt_divide)

text \<open>
  C1, as stated, fails when the clock steps back. In the first generation of an
  LMMAES run with \<^verbatim>\<open>max_runtime = 5\<close> the clock reads 4, then 6, then 4: the check
  before candidate 1 fires on the runtime and \<^verbatim>\<open>iterate\<close> returns with candidates 1
  and 2 unevaluated, the check in \<^verbatim>\<open>optimize\<close> does not fire, and
  \<^verbatim>\<open>_update_distribution\<close> runs on the partially filled population: it selects
  candidate 1, which was never evaluated, multiplies the step-size by \<open>exp (- 3)\<close>, and
  the generation is counted.
\<close>

theorem termination_during_sampling_counterexample:
  "lmmaes_initialize ex_problem_back ex_strategy_3 ex_lmmaes_options ex_lmmaes_static False
     (start_state 1) =
     (ex_lmmaes_coeffs, ([[0], [0], [0]], [[0], [0], [0]], [1], [0], [[0]], [0, 0, 0])) \<and>
   lmmaes_sampling ex_problem_back ex_strategy_3 ex_lmmaes_static [1] [[0]]
     [0..<n_individuals ex_strategy_3]
     ([[0], [0], [0]], [[0], [0], [0]], [0, 0, 0], start_state 1) =
   (([[1], [0], [0]], [[1], [0], [0]], [4, 0, 0],
     \<lparr>n_function_evaluations = 1, best_so_far = Some ([2], 4), runtime = 6,
      termination_signal = Some MAX_RUNTIME, n_generations = 0, sigma = 1,
      n_clock = 2, n_draws = 1\<rparr>), Some 1) \<and>
   lmmaes_generation ex_problem_back ex_strategy_3 ex_lmmaes_options ex_lmmaes_static
     (ex_lmmaes_coeffs, ([[0], [0], [0]], [[0], [0], [0]], [1], [0], [[0]], [0, 0, 0]),
      [], start_state 1) =
   Inr (ex_lmmaes_coeffs, ([[1], [0], [0]], [[1], [0], [0]], [1], [0], [[0]], [4, 0, 0]),
        [4, 0, 0],
        \<lparr>n_function_evaluations = 1, best_so_far = Some ([2], 4), runtime = 4,
         termination_signal = None, n_generations = 1, sigma = exp (- 3),
         n_clock = 3, n_draws = 1\<rparr>)"
proof -
  have init: "lmmaes_initialize ex_problem_back ex_strategy_3 ex_lmmaes_options ex_lmmaes_static
      False (start_state 1) =
     (ex_lmmaes_coeffs, ([[0], [0], [0]], [[0], [0], [0]], [1], [0], [[0]], [0, 0, 0]))"
    by (simp add: lmmaes_initialize_def ex_problem_back_def ex_problem_1_def ex_problem_def
        ex_strategy_3_def ex_strategy_def ex_lmmaes_options_def ex_lmmaes_static_def
        ex_lmmaes_coeffs_def get_default_def np_empty_def np_empty2_def np_zeros_def
        np_zeros2_def Let_def eval_nat_numeral real_sqrt_divide)
  have it: "lmmaes_iterate ex_problem_back ex_strategy_3 ex_lmmaes_static
      [[0], [0], [0]] [[0], [0], [0]] [1] [[0]] [0, 0, 0] (start_state 1) =
    ([[1], [0], [0]], [[1], [0], [0]], [4, 0, 0],
     \<lparr>n_function_evaluations = 1, best_so_far = Some ([2], 4), runtime = 6,
      termination_signal = Some MAX_RUNTIME, n_generations = 0, sigma = 1,
      n_clock = 2, n_draws = 1\<rparr>)"
    by (simp add: lmmaes_iterate_def ex_lmmaes_sampling_back)
  have rec: "record_fitness ex_problem_back"
    by (simp add: ex_problem_back_def ex_problem_1_def ex_problem_def)
  have rst: "lmmaes_restart_initialize ex_problem_back ex_strategy_3 ex_lmmaes_options
      ex_lmmaes_static ex_lmmaes_coeffs arrays st = ((ex_lmmaes_coeffs, arrays), st)"
    for arrays st
    by (simp add: lmmaes_restart_initialize_def es_restart_initialize_def ex_strategy_3_def
        ex_strategy_def)
  have gen: "lmmaes_generation ex_problem_back ex_strategy_3 ex_lmmaes_options ex_lmmaes_static
     (ex_lmmaes_coeffs, ([[0], [0], [0]], [[0], [0], [0]], [1], [0], [[0]], [0, 0, 0]),
      [], start_state 1) =
   Inr (ex_lmmaes_coeffs, ([[1], [0], [0]], [[1], [0], [0]], [1], [0], [[0]], [4, 0, 0]),
        [4, 0, 0],
        \<lparr>n_function_evaluations = 1, best_so_far = Some ([2], 4), runtime = 4,
         termination_signal = None, n_generations = 1, sigma = exp (- 3),
         n_clock = 3, n_draws = 1\<rparr>)"
    by (simp only: lmmaes_generation_def prod.case Let_def it rec if_True ex_check_back
        if_False ex_lmmaes_update_back rst) simp
  from init ex_lmmaes_sampling_back gen show ?thesis
    by (intro conjI)
qed

text \<open>
  C1, amended. When the termination check fires before candidate \<open>k\<close> in the sampling
  loop of \<^verbatim>\<open>iterate\<close> (LMMAES and XNES alike), \<^verbatim>\<open>iterate\<close> returns there: only the
  \<open>k\<close> candidates before it have been evaluated, and the entries of the arrays from
  \<open>k\<close> on are what they were. When it fired on the evaluation budget or on the fitness
  threshold, or when it fired on the runtime and the clock still reads at least
  \<^verbatim>\<open>max_runtime\<close> at the check in \<^verbatim>\<open>optimize\<close>, that check fires too and the loop
  breaks with the mean, the shape of the distribution, the step-size and the
  generation counter as they were: \<^verbatim>\<open>_update_distribution\<close> is not called.
\<close>

theorem termination_during_sampling:
  "(lmmaes_sampling p e h mean tm [0..<n_individuals e] (z, d, y, st) =
      ((z1, d1, y1, st1), Some k) \<longrightarrow>
    k < n_individuals e \<and>
    lmmaes_iterate p e h z d mean tm y st = (z1, d1, y1, st1) \<and>
    n_function_evaluations st1 = n_function_evaluations st + k \<and>
    (\<forall>j\<ge>k. z1 ! j = z ! j \<and> d1 ! j = d ! j \<and> y1 ! j = y ! j) \<and>
    termination_signal st1 \<noteq> None \<and>
    ((termination_signal st1 = Some MAX_RUNTIME \<longrightarrow>
        (case max_runtime p of None \<Rightarrow> False | Some m \<Rightarrow> m \<le> clock p (n_clock st1))) \<longrightarrow>
     (\<exists>fitness1 st2.
        lmmaes_generation p e opts h (c, (z, d, mean, s, tm, y), fitness, st) =
          Inl (c, (z1, d1, mean, s, tm, y1), fitness1, st2) \<and>
        sigma st2 = sigma st \<and> n_generations st2 = n_generations st \<and>
        n_function_evaluations st2 = n_function_evaluations st + k))) \<and>
   (xnes_sampling xp xmean a [0..<n_individuals xe] (x, xy, xst) =
      ((x1, xy1, xst1), Some xk) \<longrightarrow>
    xk < n_individuals xe \<and>
    xnes_iterate xp xe x xy xmean a xst = (x1, xy1, xst1) \<and>
    n_function_evaluations xst1 = n_function_evaluations xst + xk \<and>
    (\<forall>j\<ge>xk. x1 ! j = x ! j \<and> xy1 ! j = xy ! j) \<and>
    termination_signal xst1 \<noteq> None \<and>
    ((termination_signal xst1 = Some MAX_RUNTIME \<longrightarrow>
        (case max_runtime xp of None \<Rightarrow> False | Some m \<Rightarrow> m \<le> clock xp (n_clock xst1))) \<longrightarrow>
     (\<exists>xst2.
        xnes_generation expm xp xh (xe, (x, xy, xmean, a, inv_a, log_det), xst) =
          Inl (xe, (x1, xy1, xmean, a, inv_a, log_det), xst2) \<and>
        n_generations xst2 = n_generations xst \<and>
        n_function_evaluations xst2 = n_function_evaluations xst + xk)))"
proof (rule conjI; rule impI)
  assume stop: "lmmaes_sampling p e h mean tm [0..<n_individuals e] (z, d, y, st) =
            ((z1, d1, y1, st1), Some k)"
  from lmmaes_early_return[OF stop] lmmaes_early_break[OF stop]
  show "k < n_individuals e \<and>
    lmmaes_iterate p e h z d mean tm y st = (z1, d1, y1, st1) \<and>
    n_function_evaluations st1 = n_function_evaluations st + k \<and>
    (\<forall>j\<ge>k. z1 ! j = z ! j \<and> d1 ! j = d ! j \<and> y1 ! j = y ! j) \<and>
    termination_signal st1 \<noteq> None \<and>
    ((termination_signal st1 = Some MAX_RUNTIME \<longrightarrow>
        (case max_runtime p of None \<Rightarrow> False | Some m \<Rightarrow> m \<le> clock p (n_clock st1))) \<longrightarrow>
     (\<exists>fitness1 st2.
        lmmaes_generation p e opts h (c, (z, d, mean, s, tm, y), fitness, st) =
          Inl (c, (z1, d1, mean, s, tm, y1), fitness1, st2) \<and>
        sigma st2 = sigma st \<and> n_generations st2 = n_generations st \<and>
        n_function_evaluations st2 = n_function_evaluations st + k))"
    by (intro conjI impI) (elim conjE, assumption)+
next
  assume stop: "xnes_sampling xp xmean a [0..<n_individuals xe] (x, xy, xst) =
            ((x1, xy1, xst1), Some xk)"
  from xnes_early_return[OF stop] xnes_early_break[OF stop]
  show "xk < n_individuals xe \<and>
    xnes_iterate xp xe x xy xmean a xst = (x1, xy1, xst1) \<and>
    n_function_evaluations xst1 = n_function_evaluations xst + xk \<and>
    (\<forall>j\<ge>xk. x1 ! j = x ! j \<and> xy1 ! j = xy ! j) \<and>
    termination_signal xst1 \<noteq> None \<and>
    ((termination_signal xst1 = Some MAX_RUNTIME \<longrightarrow>
        (case max_runtime xp of None \<Rightarrow> False | Some m \<Rightarrow> m \<le> clock xp (n_clock xst1))) \<longrightarrow>
     (\<exists>xst2.
        xnes_generation expm xp xh (xe, (x, xy, xmean, a, inv_a, log_det), xst) =
          Inl (xe, (x1, xy1, xmean, a, inv_a, log_det), xst2) \<and>
        n_generations xst2 = n_generations xst \<and>
        n_function_evaluations xst2 = n_function_evaluations xst + xk))"
    by (intro conjI impI) (elim conjE, assumption)+
qed

lemma ex_lmmaes_sampling_late:
  "lmmaes_sampling ex_problem_late ex_strategy_3 ex_lmmaes_static [1] [[0]]
     [0..<n_individuals ex_strategy_3]
     ([[0], [0], [0]], [[0], [0], [0]], [0, 0, 0], start_state 1) =
   (([[1], [0], [0]], [[1], [0], [0]], [4, 0, 0],
     \<lparr>n_function_evaluations = 1, best_so_far = Some ([2], 4), runtime = 1,
      termination_signal = Some MAX_RUNTIME, n_generations = 0, sigma = 1,
      n_clock = 2, n_draws = 1\<rparr>), Some 1)"
  by code_simp

lemma ex_xnes_sampling_late:
  "xnes_sampling ex_problem_late [1] (np_eye 1) [0..<n_individuals ex_strategy_3]
     ([[0], [0], [0]], [0, 0, 0], start_state 1) =
   (([[2], [0], [0]], [4, 0, 0],
     \<lparr>n_function_evaluations = 1, best_so_far = Some ([2], 4), runtime = 1,
      termination_signal = Some MAX_RUNTIME, n_generations = 0, sigma = 1,
      n_clock = 2, n_draws = 1\<rparr>), Some 1)"
  by code_simp

lemma ex_late_clock:
  "termination_signal
     \<lparr>n_function_evaluations = 1, best_so_far = Some ([2], 4), runtime = 1,
      termination_signal = Some MAX_RUNTIME, n_generations = 0, sigma = 1,
      n_clock = 2, n_draws = 1\<rparr> = Some MAX_RUNTIME \<longrightarrow>
   (case max_runtime ex_problem_late of None \<Rightarrow> False
    | Some m \<Rightarrow> m \<le> clock ex_problem_late (n_clock
     \<lparr>n_function_evaluations = 1, best_so_far = Some ([2], 4), runtime = 1,
      termination_signal = Some MAX_RUNTIME, n_generations = 0, sigma = 1,
      n_clock = 2, n_draws = 1\<rparr>))"
  by (simp add: ex_problem_late_def ex_problem_1_def ex_problem_def)

lemma ex_lmmaes_sampling:
  "lmmaes_sampling ex_problem ex_strategy ex_lmmaes_static_2 [1, 1] [[0, 0]]
     [0..<n_individuals ex_strategy] ([[0, 0], [0, 0]], [[0, 0], [0, 0]], [0, 0], ex_state_2) =
   (([[1, 1], [0, 0]], [[1, 1], [0, 0]], [8, 0],
     \<lparr>n_function_evaluations = 3, best_so_far = Some ([2, 2], 8), runtime = 1,
      termination_signal = Some MAX_FUNCTION_EVALUATIONS, n_generations = 0, sigma = 1,
      n_clock = 2, n_draws = 1\<rparr>), Some 1)"
  by code_simp

lemma ex_xnes_sampling:
  "xnes_sampling ex_problem [1, 1] (np_eye 2) [0..<n_individuals ex_strategy]
     ([[0, 0], [0, 0]], [0, 0], ex_state_2) =
   (([[2, 2], [0, 0]], [8, 0],
     \<lparr>n_function_evaluations = 3, best_so_far = Some ([2, 2], 8), runtime = 1,
      termination_signal = Some MAX_FUNCTION_EVALUATIONS, n_generations = 0, sigma = 1,
      n_clock = 2, n_draws = 1\<rparr>), Some 1)"
  by code_simp

lemma ex_budget_clock:
  "termination_signal
     \<lparr>n_function_evaluations = 3, best_so_far = Some ([2, 2], 8), runtime = 1,
      termination_signal = Some MAX_FUNCTION_EVALUATIONS, n_generations = 0, sigma = 1,
      n_clock = 2, n_draws = 1\<rparr> = Some MAX_RUNTIME \<longrightarrow>
   (case max_runtime ex_problem of None \<Rightarrow> False
    | Some m \<Rightarrow> m \<le> clock ex_problem (n_clock
     \<lparr>n_function_evaluations = 3, best_so_far = Some ([2, 2], 8), runtime = 1,
      termination_signal = Some MAX_FUNCTION_EVALUATIONS, n_generations = 0, sigma = 1,
      n_clock = 2, n_draws = 1\<rparr>))"
  by simp

theorem termination_during_sampling_witness:
  "lmmaes_sampling ex_problem_late ex_strategy_3 ex_lmmaes_static [1] [[0]]
     [0..<n_individuals ex_strategy_3]
     ([[0], [0], [0]], [[0], [0], [0]], [0, 0, 0], start_state 1) =
   (([[1], [0], [0]], [[1], [0], [0]], [4, 0, 0],
     \<lparr>n_function_evaluations = 1, best_so_far = Some ([2], 4), runtime = 1,
      termination_signal = Some MAX_RUNTIME, n_generations = 0, sigma = 1,
      n_clock = 2, n_draws = 1\<rparr>), Some 1) \<and>
   max_runtime ex_problem_late = Some 1 \<and> clock ex_problem_late 2 = 2 \<and>
   (\<exists>fitness1 st2.
      lmmaes_generation ex_problem_late ex_strategy_3 ex_lmmaes_options ex_lmmaes_static
        (ex_lmmaes_coeffs, ([[0], [0], [0]], [[0], [0], [0]], [1], [0], [[0]], [0, 0, 0]),
         [], start_state 1) =
        Inl (ex_lmmaes_coeffs, ([[1], [0], [0]], [[1], [0], [0]], [1], [0], [[0]], [4, 0, 0]),
             fitness1, st2) \<and>
      sigma st2 = sigma (start_state 1) \<and> n_generations st2 = n_generations (start_state 1) \<and>
      n_function_evaluations st2 = n_function_evaluations (start_state 1) + 1) \<and>
   xnes_sampling ex_problem_late [1] (np_eye 1) [0..<n_individuals ex_strategy_3]
     ([[0], [0], [0]], [0, 0, 0], start_state 1) =
   (([[2], [0], [0]], [4, 0, 0],
     \<lparr>n_function_evaluations = 1, best_so_far = Some ([2], 4), runtime = 1,
      termination_signal = Some MAX_RUNTIME, n_generations = 0, sigma = 1,
      n_clock = 2, n_draws = 1\<rparr>), Some 1) \<and>
   (\<exists>st2.
      xnes_generation expm_1 ex_problem_late (xnes_init ex_problem_late)
        (ex_strategy_3, ([[0], [0], [0]], [0, 0, 0], [1], np_eye 1, np_eye 1, 0),
         start_state 1) =
        Inl (ex_strategy_3, ([[2], [0], [0]], [4, 0, 0], [1], np_eye 1, np_eye 1, 0), st2) \<and>
      n_generations st2 = n_generations (start_state 1) \<and>
      n_function_evaluations st2 = n_function_evaluations (start_state 1) + 1) \<and>
   lmmaes_sampling ex_problem ex_strategy ex_lmmaes_static_2 [1, 1] [[0, 0]]
     [0..<n_individuals ex_strategy] ([[0, 0], [0, 0]], [[0, 0], [0, 0]], [0, 0], ex_state_2) =
   (([[1, 1], [0, 0]], [[1, 1], [0, 0]], [8, 0],
     \<lparr>n_function_evaluations = 3, best_so_far = Some ([2, 2], 8), runtime = 1,
      termination_signal = Some MAX_FUNCTION_EVALUATIONS, n_generations = 0, sigma = 1,
      n_clock = 2, n_draws = 1\<rparr>), Some 1) \<and>
   (\<exists>fitness1 st2.
      lmmaes_generation ex_problem ex_strategy ex_lmmaes_options ex_lmmaes_static_2
        (ex_lmmaes_coeffs, ([[0, 0], [0, 0]], [[0, 0], [0, 0]], [1, 1], [0, 0], [[0, 0]], [0, 0]),
         [], ex_state_2) =
        Inl (ex_lmmaes_coeffs,
             ([[1, 1], [0, 0]], [[1, 1], [0, 0]], [1, 1], [0, 0], [[0, 0]], [8, 0]),
             fitness1, st2) \<and>
      sigma st2 = sigma ex_state_2 \<and> n_generations st2 = n_generations ex_state_2 \<and>
      n_function_evaluations st2 = n_function_evaluations ex_state_2 + 1) \<and>
   xnes_sampling ex_problem [1, 1] (np_eye 2) [0..<n_individuals ex_strategy]
     ([[0, 0], [0, 0]], [0, 0], ex_state_2) =
   (([[2, 2], [0, 0]], [8, 0],
     \<lparr>n_function_evaluations = 3, best_so_far = Some ([2, 2], 8), runtime = 1,
      termination_signal = Some MAX_FUNCTION_EVALUATIONS, n_generations = 0, sigma = 1,
      n_clock = 2, n_draws = 1\<rparr>), Some 1) \<and>
   (\<exists>st2.
      xnes_generation expm_1 ex_problem (xnes_init ex_problem)
        (ex_strategy, ([[0, 0], [0, 0]], [0, 0], [1, 1], np_eye 2, np_eye 2, 0), ex_state_2) =
        Inl (ex_strategy, ([[2, 2], [0, 0]], [8, 0], [1, 1], np_eye 2, np_eye 2, 0), st2) \<and>
      n_generations st2 = n_generations ex_state_2 \<and>
      n_function_evaluations st2 = n_function_evaluations ex_state_2 + 1)"
proof -
  note late = termination_during_sampling [
      where opts = ex_lmmaes_options and c = ex_lmmaes_coeffs and s = "[0]"
        and fitness = "[]" and expm = expm_1 and xh = "xnes_init ex_problem_late"
        and inv_a = "np_eye 1" and log_det = 0]
  note budget = termination_during_sampling [
      where opts = ex_lmmaes_options and c = ex_lmmaes_coeffs and s = "[0, 0]"
        and fitness = "[]" and expm = expm_1 and xh = "xnes_init ex_problem"
        and inv_a = "np_eye 2" and log_det = 0]
  from late [THEN conjunct1, THEN mp, OF ex_lmmaes_sampling_late]
  have "(termination_signal
     \<lparr>n_function_evaluations = 1, best_so_far = Some ([2], 4), runtime = 1,
      termination_signal = Some MAX_RUNTIME, n_generations = 0, sigma = 1,
      n_clock = 2, n_draws = 1\<rparr> = Some MAX_RUNTIME \<longrightarrow>
   (case max_runtime ex_problem_late of None \<Rightarrow> False
    | Some m \<Rightarrow> m \<le> clock ex_problem_late (n_clock
     \<lparr>n_function_evaluations = 1, best_so_far = Some ([2], 4), runtime = 1,
      termination_signal = Some MAX_RUNTIME, n_generations = 0, sigma = 1,
      n_clock = 2, n_draws = 1\<rparr>))) \<longrightarrow>
    (\<exists>fitness1 st2.
      lmmaes_generation ex_problem_late ex_strategy_3 ex_lmmaes_options ex_lmmaes_static
        (ex_lmmaes_coeffs, ([[0], [0], [0]], [[0], [0], [0]], [1], [0], [[0]], [0, 0, 0]),
         [], start_state 1) =
        Inl (ex_lmmaes_coeffs, ([[1], [0], [0]], [[1], [0], [0]], [1], [0], [[0]], [4, 0, 0]),
             fitness1, st2) \<and>
      sigma st2 = sigma (start_state 1) \<and> n_generations st2 = n_generations (start_state 1) \<and>
      n_function_evaluations st2 = n_function_evaluations (start_state 1) + 1)"
    by (elim conjE)
  from this [THEN mp, OF ex_late_clock]
  have l: "\<exists>fitness1 st2.
      lmmaes_generation ex_problem_late ex_strategy_3 ex_lmmaes_options ex_lmmaes_static
        (ex_lmmaes_coeffs, ([[0], [0], [0]], [[0], [0], [0]], [1], [0], [[0]], [0, 0, 0]),
         [], start_state 1) =
        Inl (ex_lmmaes_coeffs, ([[1], [0], [0]], [[1], [0], [0]], [1], [0], [[0]], [4, 0, 0]),
             fitness1, st2) \<and>
      sigma st2 = sigma (start_state 1) \<and> n_generations st2 = n_generations (start_state 1) \<and>
      n_function_evaluations st2 = n_function_evaluations (start_state 1) + 1" .
  from late [THEN conjunct2, THEN mp, OF ex_xnes_sampling_late]
  have "(termination_signal
     \<lparr>n_function_evaluations = 1, best_so_far = Some ([2], 4), runtime = 1,
      termination_signal = Some MAX_RUNTIME, n_generations = 0, sigma = 1,
      n_clock = 2, n_draws = 1\<rparr> = Some MAX_RUNTIME \<longrightarrow>
   (case max_runtime ex_problem_late of None \<Rightarrow> False
    | Some m \<Rightarrow> m \<le> clock ex_problem_late (n_clock
     \<lparr>n_function_evaluations = 1, best_so_far = Some ([2], 4), runtime = 1,
      termination_signal = Some MAX_RUNTIME, n_generations = 0, sigma = 1,
      n_clock = 2, n_draws = 1\<rparr>))) \<longrightarrow>
    (\<exists>st2.
      xnes_generation expm_1 ex_problem_late (xnes_init ex_problem_late)
        (ex_strategy_3, ([[0], [0], [0]], [0, 0, 0], [1], np_eye 1, np_eye 1, 0),
         start_state 1) =
        Inl (ex_strategy_3, ([[2], [0], [0]], [4, 0, 0], [1], np_eye 1, np_eye 1, 0), st2) \<and>
      n_generations st2 = n_generations (start_state 1) \<and>
      n_function_evaluations st2 = n_function_evaluations (start_state 1) + 1)"
    by (elim conjE)
  from this [THEN mp, OF ex_late_clock]
  have x: "\<exists>st2.
      xnes_generation expm_1 ex_problem_late (xnes_init ex_problem_late)
        (ex_strategy_3, ([[0], [0], [0]], [0, 0, 0], [1], np_eye 1, np_eye 1, 0),
         start_state 1) =
        Inl (ex_strategy_3, ([[2], [0], [0]], [4, 0, 0], [1], np_eye 1, np_eye 1, 0), st2) \<and>
      n_generations st2 = n_generations (start_state 1) \<and>
      n_function_evaluations st2 = n_function_evaluations (start_state 1) + 1" .
  from budget [THEN conjunct1, THEN mp, OF ex_lmmaes_sampling]
  have "(termination_signal
     \<lparr>n_function_evaluations = 3, best_so_far = Some ([2, 2], 8), runtime = 1,
      termination_signal = Some MAX_FUNCTION_EVALUATIONS, n_generations = 0, sigma = 1,
      n_clock = 2, n_draws = 1\<rparr> = Some MAX_RUNTIME \<longrightarrow>
   (case max_runtime ex_problem of None \<Rightarrow> False
    | Some m \<Rightarrow> m \<le> clock ex_problem (n_clock
     \<lparr>n_function_evaluations = 3, best_so_far = Some ([2, 2], 8), runtime = 1,
      termination_signal = Some MAX_FUNCTION_EVALUATIONS, n_generations = 0, sigma = 1,
      n_clock = 2, n_draws = 1\<rparr>))) \<longrightarrow>
    (\<exists>fitness1 st2.
      lmmaes_generation ex_problem ex_strategy ex_lmmaes_options ex_lmmaes_static_2
        (ex_lmmaes_coeffs, ([[0, 0], [0, 0]], [[0, 0], [0, 0]], [1, 1], [0, 0], [[0, 0]], [0, 0]),
         [], ex_state_2) =
        Inl (ex_lmmaes_coeffs,
             ([[1, 1], [0, 0]], [[1, 1], [0, 0]], [1, 1], [0, 0], [[0, 0]], [8, 0]),
             fitness1, st2) \<and>
      sigma st2 = sigma ex_state_2 \<and> n_generations st2 = n_generations ex_state_2 \<and>
      n_function_evaluations st2 = n_function_evaluations ex_state_2 + 1)"
    by (elim conjE)
  from this [THEN mp, OF ex_budget_clock]
  have lb: "\<exists>fitness1 st2.
      lmmaes_generation ex_problem ex_strategy ex_lmmaes_options ex_lmmaes_static_2
        (ex_lmmaes_coeffs, ([[0, 0], [0, 0]], [[0, 0], [0, 0]], [1, 1], [0, 0], [[0, 0]], [0, 0]),
         [], ex_state_2) =
        Inl (ex_lmmaes_coeffs,
             ([[1, 1], [0, 0]], [[1, 1], [0, 0]], [1, 1], [0, 0], [[0, 0]], [8, 0]),
             fitness1, st2) \<and>
      sigma st2 = sigma ex_state_2 \<and> n_generations st2 = n_generations ex_state_2 \<and>
      n_function_evaluations st2 = n_function_evaluations ex_state_2 + 1" .
  from budget [THEN conjunct2, THEN mp, OF ex_xnes_sampling]
  have "(termination_signal
     \<lparr>n_function_evaluations = 3, best_so_far = Some ([2, 2], 8), runtime = 1,
      termination_signal = Some MAX_FUNCTION_EVALUATIONS, n_generations = 0, sigma = 1,
      n_clock = 2, n_draws = 1\<rparr> = Some MAX_RUNTIME \<longrightarrow>
   (case max_runtime ex_problem of None \<Rightarrow> False
    | Some m \<Rightarrow> m \<le> clock ex_problem (n_clock
     \<lparr>n_function_evaluations = 3, best_so_far = Some ([2, 2], 8), runtime = 1,
      termination_signal = Some MAX_FUNCTION_EVALUATIONS, n_generations = 0, sigma = 1,
      n_clock = 2, n_draws = 1\<rparr>))) \<longrightarrow>
    (\<exists>st2.
      xnes_generation expm_1 ex_problem (xnes_init ex_problem)
        (ex_strategy, ([[0, 0], [0, 0]], [0, 0], [1, 1], np_eye 2, np_eye 2, 0), ex_state_2) =
        Inl (ex_strategy, ([[2, 2], [0, 0]], [8, 0], [1, 1], np_eye 2, np_eye 2, 0), st2) \<and>
      n_generations st2 = n_generations ex_state_2 \<and>
      n_function_evaluations st2 = n_function_evaluations ex_state_2 + 1)"
    by (elim conjE)
  from this [THEN mp, OF ex_budget_clock]
  have xb: "\<exists>st2.
      xnes_generation expm_1 ex_problem (xnes_init ex_problem)
        (ex_strategy, ([[0, 0], [0, 0]], [0, 0], [1, 1], np_eye 2, np_eye 2, 0), ex_state_2) =
        Inl (ex_strategy, ([[2, 2], [0, 0]], [8, 0], [1, 1], np_eye 2, np_eye 2, 0), st2) \<and>
      n_generations st2 = n_generations ex_state_2 \<and>
      n_function_evaluations st2 = n_function_evaluations ex_state_2 + 1" .
  have m: "max_runtime ex_problem_late = Some 1" "clock ex_problem_late 2 = 2"
    by (simp_all add: ex_problem_late_def ex_problem_1_def ex_problem_def)
  show ?thesis
    by (intro conjI)
      (rule ex_lmmaes_sampling_late l ex_xnes_sampling_late x m
         ex_lmmaes_sampling lb ex_xnes_sampling xb)+
qed

section \<open>The evaluation count of a run\<close>

lemma check_terminations_continue:
  "\<not> fst (check_terminations p st) \<Longrightarrow>
   enat (n_function_evaluations st) < max_function_evaluations p"
  by (auto simp add: check_terminations_def termination_reason_def Let_def split: if_splits)

lemma lmmaes_sampling_budget:
  assumes "enat (n_function_evaluations st) \<le> max_function_evaluations p"
    and "lmmaes_sampling p e h mean tm ks (z, d, y, st) = ((z1, d1, y1, st1), r)"
  shows "enat (n_function_evaluations st1) \<le> max_function_evaluations p"
  using assms
proof (induction ks arbitrary: z d y st)
  case Nil
  then show ?case by simp
next
  case (Cons i ks)
  show ?case
  proof (cases "fst (check_terminations p st)")
    case True
    with Cons.prems show ?thesis
      by (auto simp add: case_prod_beta)
  next
    case False
    let ?st1 = "snd (check_terminations p st)"
    let ?zk = "standard_normal p (n_draws ?st1) (ndim_problem p)"
    let ?st2 = "?st1\<lparr>n_draws := n_draws ?st1 + 1\<rparr>"
    let ?dk = "lmmaes_direction h tm (n_generations ?st2) ?zk"
    let ?ev = "evaluate_fitness p ?st2 (vadd mean (smul (sigma ?st2) ?dk))"
    from False Cons.prems(2)
    have run: "lmmaes_sampling p e h mean tm ks
            (z[i := ?zk], d[i := ?dk], y[i := fst ?ev], snd ?ev) = ((z1, d1, y1, st1), r)"
      by (simp add: case_prod_beta Let_def)
    have "enat (n_function_evaluations (snd ?ev)) \<le> max_function_evaluations p"
      using check_terminations_continue[OF False] by (simp add: Suc_ile_eq)
    from Cons.IH[OF this run] show ?thesis .
  qed
qed

lemma xnes_sampling_budget:
  assumes "enat (n_function_evaluations st) \<le> max_function_evaluations p"
    and "xnes_sampling p mean a ks (x, y, st) = ((x1, y1, st1), r)"
  shows "enat (n_function_evaluations st1) \<le> max_function_evaluations p"
  using assms
proof (induction ks arbitrary: x y st)
  case Nil
  then show ?case by simp
next
  case (Cons i ks)
  show ?case
  proof (cases "fst (check_terminations p st)")
    case True
    with Cons.prems show ?thesis
      by (auto simp add: case_prod_beta)
  next
    case False
    let ?st1 = "snd (check_terminations p st)"
    let ?xk = "vadd mean (mat_vec a (standard_normal p (n_draws ?st1) (ndim_problem p)))"
    let ?st2 = "?st1\<lparr>n_draws := n_draws ?st1 + 1\<rparr>"
    let ?ev = "evaluate_fitness p ?st2 ?xk"
    from False Cons.prems(2)
    have run: "xnes_sampling p mean a ks (x[i := ?xk], y[i := fst ?ev], snd ?ev) =
                 ((x1, y1, st1), r)"
      by (simp add: case_prod_beta Let_def)
    have "enat (n_function_evaluations (snd ?ev)) \<le> max_function_evaluations p"
      using check_terminations_continue[OF False] by (simp add: Suc_ile_eq)
    from Cons.IH[OF this run] show ?thesis .
  qed
qed

lemma lmmaes_generation_budget:
  assumes "enat (n_function_evaluations st) \<le> max_function_evaluations p"
    and "lmmaes_generation p e opts h (c, arrays, fitness, st) = r"
    and "r = Inl (c1, arrays1, fitness1, st1) \<or> r = Inr (c1, arrays1, fitness1, st1)"
  shows "enat (n_function_evaluations st1) \<le> max_function_evaluations p"
proof -
  obtain z d mean s tm y where arrays: "arrays = (z, d, mean, s, tm, y)"
    by (cases arrays) auto
  obtain z1 d1 y1 st' rr where
    samp: "lmmaes_sampling p e h mean tm [0..<n_individuals e] (z, d, y, st) =
             ((z1, d1, y1, st'), rr)"
    by (metis prod_cases4 surj_pair)
  from lmmaes_sampling_budget[OF assms(1) samp]
  have b: "enat (n_function_evaluations st') \<le> max_function_evaluations p" .
  have it: "lmmaes_iterate p e h z d mean tm y st = (z1, d1, y1, st')"
    by (simp add: lmmaes_iterate_def samp)
  from assms(2,3) b show ?thesis
    unfolding arrays
    by (auto simp add: lmmaes_generation_def it lmmaes_update_distribution_def
        lmmaes_restart_initialize_def es_restart_initialize_def Let_def case_prod_beta
        split: if_splits)
qed

lemma lmmaes_loop_budget:
  "enat (n_function_evaluations st) \<le> max_function_evaluations p \<Longrightarrow>
   lmmaes_loop fuel p e opts h (c, arrays, fitness, st) = Some (c1, arrays1, fitness1, st1) \<Longrightarrow>
   enat (n_function_evaluations st1) \<le> max_function_evaluations p"
proof (induction fuel arbitrary: c arrays fitness st)
  case 0
  then show ?case by simp
next
  case (Suc fuel)
  show ?case
  proof (cases "lmmaes_generation p e opts h (c, arrays, fitness, st)")
    case (Inl final)
    with Suc.prems have "final = (c1, arrays1, fitness1, st1)" by simp
    with lmmaes_generation_budget[OF Suc.prems(1) Inl] show ?thesis by simp
  next
    case (Inr nxt)
    obtain c2 arrays2 fitness2 st2 where nxt: "nxt = (c2, arrays2, fitness2, st2)"
      by (cases nxt) auto
    from lmmaes_generation_budget[OF Suc.prems(1) Inr] nxt
    have "enat (n_function_evaluations st2) \<le> max_function_evaluations p" by simp
    moreover from Suc.prems(2) Inr nxt
    have "lmmaes_loop fuel p e opts h (c2, arrays2, fitness2, st2) =
            Some (c1, arrays1, fitness1, st1)" by simp
    ultimately show ?thesis by (rule Suc.IH)
  qed
qed

lemma lmmaes_optimize_budget:
  assumes "lmmaes_optimize fuel p e opts = Some (r, extras)"
  shows "enat (res_n_function_evaluations r) \<le> max_function_evaluations p"
proof -
  let ?h = "lmmaes_init p opts"
  let ?st = "start_state (initial_sigma e)"
  let ?i = "lmmaes_initialize p e opts ?h False ?st"
  from assms obtain c1 arrays1 fitness1 st1 where
    loop: "lmmaes_loop fuel p e opts ?h (fst ?i, snd ?i, [], ?st) =
             Some (c1, arrays1, fitness1, st1)"
    and r: "r = collect_results st1 fitness1"
    by (auto simp add: lmmaes_optimize_def Let_def case_prod_beta split: option.splits)
  have "enat (n_function_evaluations ?st) \<le> max_function_evaluations p"
    by (simp add: start_state_def zero_enat_def[symmetric])
  from lmmaes_loop_budget[OF this loop] r show ?thesis
    by (simp add: collect_results_def)
qed

lemma xnes_generation_budget:
  assumes "enat (n_function_evaluations st) \<le> max_function_evaluations p"
    and "xnes_generation expm p h (e, arrays, st) = r"
    and "r = Inl (e1, arrays1, st1) \<or> r = Inr (e1, arrays1, st1)"
  shows "enat (n_function_evaluations st1) \<le> max_function_evaluations p"
proof -
  obtain x y mean a inv_a log_det where arrays: "arrays = (x, y, mean, a, inv_a, log_det)"
    by (cases arrays) auto
  obtain x1 y1 st' rr where
    samp: "xnes_sampling p mean a [0..<n_individuals e] (x, y, st) = ((x1, y1, st'), rr)"
    by (metis prod_cases3 surj_pair)
  from xnes_sampling_budget[OF assms(1) samp]
  have b: "enat (n_function_evaluations st') \<le> max_function_evaluations p" .
  have it: "xnes_iterate p e x y mean a st = (x1, y1, st')"
    by (simp add: xnes_iterate_def samp)
  from assms(2,3) b show ?thesis
    unfolding arrays
    by (auto simp add: xnes_generation_def it xnes_restart_reinitialize_def
        nes_restart_reinitialize_def Let_def case_prod_beta split: if_splits)
qed

lemma xnes_loop_budget:
  "enat (n_function_evaluations st) \<le> max_function_evaluations p \<Longrightarrow>
   xnes_loop fuel expm p h (e, arrays, st) = Some (e1, arrays1, st1) \<Longrightarrow>
   enat (n_function_evaluations st1) \<le> max_function_evaluations p"
proof (induction fuel arbitrary: e arrays st)
  case 0
  then show ?case by simp
next
  case (Suc fuel)
  show ?case
  proof (cases "xnes_generation expm p h (e, arrays, st)")
    case (Inl final)
    with Suc.prems have "final = (e1, arrays1, st1)" by simp
    with xnes_generation_budget[OF Suc.prems(1) Inl] show ?thesis by simp
  next
    case (Inr nxt)
    obtain e2 arrays2 st2 where nxt: "nxt = (e2, arrays2, st2)"
      by (cases nxt) auto
    from xnes_generation_budget[OF Suc.prems(1) Inr] nxt
    have "enat (n_function_evaluations st2) \<le> max_function_evaluations p" by simp
    moreover from Suc.prems(2) Inr nxt
    have "xnes_loop fuel expm p h (e2, arrays2, st2) = Some (e1, arrays1, st1)" by simp
    ultimately show ?thesis by (rule Suc.IH)
  qed
qed

lemma xnes_optimize_budget:
  assumes "xnes_optimize fuel expm p e = Some (r, m)"
  shows "enat (res_n_function_evaluations r) \<le> max_function_evaluations p"
proof -
  let ?st = "start_state (initial_sigma e)"
  let ?i = "xnes_initialize p e False ?st"
  from assms obtain e1 arrays1 st1 where
    loop: "xnes_loop fuel expm p (xnes_init p) (fst ?i, snd ?i, ?st) = Some (e1, arrays1, st1)"
    and r: "r = collect_results st1 []"
    by (auto simp add: xnes_optimize_def Let_def case_prod_beta split: option.splits)
  have "enat (n_function_evaluations ?st) \<le> max_function_evaluations p"
    by (simp add: start_state_def zero_enat_def[symmetric])
  from xnes_loop_budget[OF this loop] r show ?thesis
    by (simp add: collect_results_def)
qed

text \<open>
  SRS checks after the evaluation: a pass through its loop body that starts within
  the budget may end one evaluation above it.
\<close>

lemma srs_generation_count:
  assumes "srs_generation p h (x, fitness, st) = Inr (stop, x1, y, fitness1, st1)"
  shows "n_function_evaluations st1 = n_function_evaluations st + 1"
    and "\<not> stop \<Longrightarrow> enat (n_function_evaluations st1) < max_function_evaluations p"
proof -
  from assms obtain x2 y2 st2 where it: "srs_iterate p h st x = Inr (x2, y2, st2)"
    and st1: "st1 = snd (check_terminations p
                (st2\<lparr>sigma := max (gamma h * sigma st2) (min_sigma h)\<rparr>))"
    and stop: "stop = fst (check_terminations p
                (st2\<lparr>sigma := max (gamma h * sigma st2) (min_sigma h)\<rparr>))"
    by (auto simp add: srs_generation_def Let_def case_prod_beta split: sum.splits)
  show "n_function_evaluations st1 = n_function_evaluations st + 1"
    using srs_iterate_fields(3)[OF it] st1 by simp
  show "enat (n_function_evaluations st1) < max_function_evaluations p" if "\<not> stop"
    using check_terminations_continue[of p "st2\<lparr>sigma := max (gamma h * sigma st2) (min_sigma h)\<rparr>"]
      that stop st1 by simp
qed

lemma srs_loop_count:
  "srs_loop fuel p h (x, fitness, st) = Some (Inr (fitness1, st1)) \<Longrightarrow>
   enat (n_function_evaluations st1) \<le>
     max (max_function_evaluations p) (enat (n_function_evaluations st + 1))"
proof (induction fuel arbitrary: x fitness st)
  case 0
  then show ?case by simp
next
  case (Suc fuel)
  from Suc.prems obtain stop x2 y2 fitness2 st2 where
    gen: "srs_generation p h (x, fitness, st) = Inr (stop, x2, y2, fitness2, st2)"
    by (auto split: sum.splits)
  show ?case
  proof (cases stop)
    case True
    with Suc.prems gen have "st1 = st2" by simp
    with srs_generation_count(1)[OF gen] show ?thesis
      by (simp add: le_max_iff_disj)
  next
    case False
    with Suc.prems gen
    have "srs_loop fuel p h (x2, fitness2, st2\<lparr>n_generations := n_generations st2 + 1\<rparr>) =
            Some (Inr (fitness1, st1))" by simp
    from Suc.IH[OF this]
    have "enat (n_function_evaluations st1) \<le>
            max (max_function_evaluations p) (enat (n_function_evaluations st2 + 1))"
      by simp
    moreover have "enat (n_function_evaluations st2 + 1) \<le> max_function_evaluations p"
      using srs_generation_count(2)[OF gen] False by (simp add: Suc_ile_eq)
    ultimately have "enat (n_function_evaluations st1) \<le> max_function_evaluations p"
      by (simp add: max_def split: if_splits)
    then show ?thesis
      by (simp add: le_max_iff_disj)
  qed
qed

lemma srs_optimize_count:
  assumes "srs_optimize fuel p opts = Some (Inr r)"
  shows "enat (res_n_function_evaluations r) \<le> max (max_function_evaluations p) 2"
proof -
  from assms obtain h where h: "srs_init opts = Inr h"
    by (auto simp add: srs_optimize_def split: sum.splits)
  let ?i = "srs_initialize p opts (start_state (opt_sigma opts))"
  from assms h obtain fitness1 st1 where
    loop: "srs_loop fuel p h (fst ?i, [fst (snd ?i)], snd (snd ?i)) = Some (Inr (fitness1, st1))"
    and r: "r = collect_results st1 fitness1"
    by (auto simp add: srs_optimize_def Let_def case_prod_beta split: option.splits sum.splits)
  have "n_function_evaluations (snd (snd ?i)) = 1"
    by (simp add: srs_initialize_def Let_def case_prod_beta start_state_def)
  with srs_loop_count[OF loop] r show ?thesis
    by (simp add: collect_results_def numeral_eq_enat numeral_2_eq_2)
qed

text \<open>
  C7. The evaluation count of a result is to exceed \<^verbatim>\<open>max_function_evaluations\<close> by
  at most \<open>n_individuals - 1\<close>. LMMAES and XNES check before every evaluation and keep
  within the budget itself, as shown above. SRS does not keep within the bound: it
  evaluates the initial point in \<^verbatim>\<open>initialize\<close> and a candidate in \<^verbatim>\<open>iterate\<close>
  before its first check, so that with \<^verbatim>\<open>max_function_evaluations = 1\<close> its result
  records two evaluations, one more than the bound allows for its one candidate per
  generation.
\<close>

theorem srs_budget_one_overshoot:
  "srs_optimize 1 ex_problem_b1 ex_srs_options =
     Some (Inr \<lparr>res_n_function_evaluations = 2, res_best_so_far = Some ([3, 3], 18),
                res_runtime = 0, res_termination_signal = Some MAX_FUNCTION_EVALUATIONS,
                res_n_generations = 0, res_fitness = [18, 961 / 50]\<rparr>) \<and>
   \<not> overshoot_bound ex_problem_b1 srs_n_individuals
       \<lparr>res_n_function_evaluations = 2, res_best_so_far = Some ([3, 3], 18),
        res_runtime = 0, res_termination_signal = Some MAX_FUNCTION_EVALUATIONS,
        res_n_generations = 0, res_fitness = [18, 961 / 50]\<rparr>"
proof -
  have "srs_optimize 1 ex_problem_b1 ex_srs_options =
     Some (Inr \<lparr>res_n_function_evaluations = 2, res_best_so_far = Some ([3, 3], 18),
                res_runtime = 0, res_termination_signal = Some MAX_FUNCTION_EVALUATIONS,
                res_n_generations = 0, res_fitness = [18, 961 / 50]\<rparr>)"
    by code_simp
  moreover have "\<not> overshoot_bound ex_problem_b1 srs_n_individuals
       \<lparr>res_n_function_evaluations = 2, res_best_so_far = Some ([3, 3], 18),
        res_runtime = 0, res_termination_signal = Some MAX_FUNCTION_EVALUATIONS,
        res_n_generations = 0, res_fitness = [18, 961 / 50]\<rparr>"
    by (simp add: overshoot_bound_def srs_n_individuals_def ex_problem_b1_def ex_problem_def
        one_enat_def)
  ultimately show ?thesis by simp
qed

end
